theory Spec2Isabelle
  imports Complex_Main "HOL-Library.Sublist"
begin

section \<open>Units of measure (lib/types.ts, as used by lib/conversions.ts)\<close>

text \<open>
  Modelled from the spec: the unit enums of \<^verbatim>\<open>lib/types.ts\<close>, a file that is not part of
  the sources. The member names are the ones \<^verbatim>\<open>conversions.ts\<close> refers to
  (\<^verbatim>\<open>PressureUnit.bar\<close>, \<^verbatim>\<open>SpringRateUnit.kgf\<close>, \<^verbatim>\<open>ForceUnit.kgf\<close>, ...); the spec calls a
  unit "an enum value tagged with the quantity it belongs to", so \<open>UnitOfMeasure\<close> is the
  tagged union of the five enums. \<^verbatim>\<open>LengthUnit.in\<close> is written \<open>inch\<close> (\<open>in\<close> is reserved),
  and the second member of \<^verbatim>\<open>WeightUnit\<close>, which the sources never name, is written \<open>lb\<close>.
\<close>

datatype PressureUnit = bar | psi

datatype SpringRateUnit = kgf | lbs

datatype LengthUnit = cm | inch

datatype ForceUnit = kgf | lbf

datatype SpeedUnit = kph | mph

datatype WeightUnit = kg | lb

datatype UnitOfMeasure =
    Pressure PressureUnit
  | SpringRate SpringRateUnit
  | Length LengthUnit
  | Force ForceUnit
  | Speed SpeedUnit

text \<open>Two units measure the same physical quantity when they carry the same tag.\<close>

fun sameQuantity :: "UnitOfMeasure \<Rightarrow> UnitOfMeasure \<Rightarrow> bool" where
  "sameQuantity (Pressure a) (Pressure b) = True"
| "sameQuantity (SpringRate a) (SpringRate b) = True"
| "sameQuantity (Length a) (Length b) = True"
| "sameQuantity (Force a) (Force b) = True"
| "sameQuantity (Speed a) (Speed b) = True"
| "sameQuantity u v = False"

section \<open>JavaScript values and built-ins\<close>

text \<open>
  A JavaScript number is an IEEE-754 double. The model keeps the three special values
  apart and computes on the finite ones with exact real arithmetic: rounding to 53 bits,
  overflow and underflow are not modelled, so nothing below speaks about rounding error.
\<close>

datatype number = NaN | PosInfinity | NegInfinity | Finite real

text \<open>The TypeScript type \<^verbatim>\<open>string | number\<close> of the values the converters accept.\<close>

datatype strnum = Str string | Num real

datatype error = TypeError | RangeError

text \<open>\<^verbatim>\<open>!value\<close> on a number: NaN and zero are falsy.\<close>

fun truthy :: "number \<Rightarrow> bool" where
  "truthy NaN = False"
| "truthy PosInfinity = True"
| "truthy NegInfinity = True"
| "truthy (Finite x) = (x \<noteq> 0)"

subsection \<open>Number.prototype.toFixed\<close>

definition digitChar :: "nat \<Rightarrow> char" where
  "digitChar d = ''0123456789'' ! d"

fun showNat :: "nat \<Rightarrow> string" where
  "showNat n = (if n < 10 then [digitChar n] else showNat (n div 10) @ [digitChar (n mod 10)])"

declare showNat.simps [simp del]

text \<open>
  ECMAScript's algorithm on the exact value: the sign is split off, \<open>n\<close> is the integer
  nearest to \<open>x * 10^digits\<close> (the larger one on a tie), and its decimal digits are padded
  with zeros on the left to \<open>digits + 1\<close> places before the point is put in. For
  \<open>x \<ge> 10^21\<close> JavaScript switches to exponent notation, and for more than 100 digits it
  raises RangeError; neither is produced here (\<open>convertTo\<close> below writes the RangeError
  out, the renderers only ask for 0, 1 or 2 digits). Since the value is the exact one and
  not its double, a decimal on a rounding tie is printed as the decimal rounds, where
  JavaScript prints as its nearest double rounds.
\<close>

fun toFixed :: "number \<Rightarrow> nat \<Rightarrow> string" where
  "toFixed NaN digits = ''NaN''"
| "toFixed PosInfinity digits = ''Infinity''"
| "toFixed NegInfinity digits = ''-Infinity''"
| "toFixed (Finite x) digits =
     (let n = nat \<lfloor>\<bar>x\<bar> * 10 ^ digits + 1 / 2\<rfloor>;
          m = showNat n;
          z = (if length m \<le> digits then replicate (digits + 1 - length m) (CHR ''0'') @ m else m);
          k = length z
      in (if x < 0 then ''-'' else '''') @
         (if digits = 0 then m else take (k - digits) z @ ''.'' @ drop (k - digits) z))"

declare toFixed.simps [simp del]

subsection \<open>parseFloat\<close>

text \<open>
  \<^verbatim>\<open>parseFloat\<close> skips leading white space and reads the longest prefix that is a decimal
  literal: an optional sign, then \<^verbatim>\<open>Infinity\<close> or digits with an optional fraction and an
  optional exponent. Without such a prefix the result is NaN. Only the ASCII white space
  characters are recognised here, and the result is the exact value of the literal: it is
  not rounded to a double, so a literal too small for a double is not read as zero and
  one too large not as Infinity.
\<close>

definition isWhiteSpace :: "char \<Rightarrow> bool" where
  "isWhiteSpace c = (c \<in> set [CHR 0x09, CHR 0x0A, CHR 0x0B, CHR 0x0C, CHR 0x0D, CHR '' ''])"

definition isDigit :: "char \<Rightarrow> bool" where
  "isDigit c = (c \<in> set ''0123456789'')"

definition digitValue :: "char \<Rightarrow> nat" where
  "digitValue c = of_char c - 48"

definition natOfDigits :: "string \<Rightarrow> nat" where
  "natOfDigits ds = foldl (\<lambda>n c. 10 * n + digitValue c) 0 ds"

definition parseExponent :: "string \<Rightarrow> int" where
  "parseExponent s =
     (case s of
        [] \<Rightarrow> 0
      | e # t \<Rightarrow>
          if e = CHR ''e'' \<or> e = CHR ''E'' then
            (case t of
               [] \<Rightarrow> 0
             | sg # t' \<Rightarrow>
                 if sg = CHR ''-'' \<and> takeWhile isDigit t' \<noteq> [] then - int (natOfDigits (takeWhile isDigit t'))
                 else if sg = CHR ''+'' \<and> takeWhile isDigit t' \<noteq> [] then int (natOfDigits (takeWhile isDigit t'))
                 else int (natOfDigits (takeWhile isDigit t)))
          else 0)"

definition scale10 :: "real \<Rightarrow> int \<Rightarrow> real" where
  "scale10 m e = (if 0 \<le> e then m * 10 ^ nat e else m / 10 ^ nat (- e))"

definition parseUnsigned :: "string \<Rightarrow> number" where
  "parseUnsigned s =
     (let ip = takeWhile isDigit s;
          r = dropWhile isDigit s;
          fp = (case r of [] \<Rightarrow> [] | c # t \<Rightarrow> if c = CHR ''.'' then takeWhile isDigit t else []);
          r' = (case r of [] \<Rightarrow> [] | c # t \<Rightarrow> if c = CHR ''.'' then dropWhile isDigit t else r)
      in if ip = [] \<and> fp = [] then (if take 8 s = ''Infinity'' then PosInfinity else NaN)
         else Finite (scale10 (real (natOfDigits ip) + real (natOfDigits fp) / 10 ^ length fp)
                        (parseExponent r')))"

fun negate :: "number \<Rightarrow> number" where
  "negate NaN = NaN"
| "negate PosInfinity = NegInfinity"
| "negate NegInfinity = PosInfinity"
| "negate (Finite x) = Finite (- x)"

definition parseFloat :: "string \<Rightarrow> number" where
  "parseFloat s =
     (case dropWhile isWhiteSpace s of
        [] \<Rightarrow> NaN
      | c # r \<Rightarrow>
          if c = CHR ''-'' then negate (parseUnsigned r)
          else if c = CHR ''+'' then parseUnsigned r
          else parseUnsigned (c # r))"

subsection \<open>String padding, trimming and joining\<close>

definition padEnd :: "string \<Rightarrow> nat \<Rightarrow> string" where
  "padEnd s w = s @ replicate (w - length s) (CHR '' '')"

definition padStart :: "string \<Rightarrow> nat \<Rightarrow> string" where
  "padStart s w = replicate (w - length s) (CHR '' '') @ s"

text \<open>\<^verbatim>\<open>trim\<close> strips white space at both ends (the ASCII white space characters here).\<close>

definition trim :: "string \<Rightarrow> string" where
  "trim s = rev (dropWhile isWhiteSpace (rev (dropWhile isWhiteSpace s)))"

fun join :: "string list \<Rightarrow> string \<Rightarrow> string" where
  "join [] sep = []"
| "join [x] sep = x"
| "join (x # y # xs) sep = x @ sep @ join (y # xs) sep"

section \<open>The helpers of lib/utils.ts and lib/unitsOfMeasure.ts\<close>

text \<open>
  \<^verbatim>\<open>ensureFloat\<close>, \<^verbatim>\<open>formatFloat\<close> and \<^verbatim>\<open>addSuffix\<close> (lib/utils.ts) and \<^verbatim>\<open>formatUnit\<close> and
  \<^verbatim>\<open>formatUnitHeaders\<close> (lib/unitsOfMeasure.ts) are imported by the sources, but the two
  files are not among them. Each module is a record of its functions, and every function
  below that calls into a module takes the record as its first argument (\<open>U\<close> for utils,
  \<open>M\<close> for unitsOfMeasure): a theorem stated for every \<open>U\<close> and \<open>M\<close> holds whatever the
  helpers compute. Arguments that call sites leave out are \<open>None\<close>, since the defaults are
  declared in the missing files.
\<close>

record utils =
  ensureFloat :: "strnum \<Rightarrow> real"
  formatFloat :: "string \<Rightarrow> nat \<Rightarrow> string \<Rightarrow> string"
  addSuffix :: "nat \<Rightarrow> string"

record unitsOfMeasure =
  formatUnit :: "strnum \<Rightarrow> UnitOfMeasure \<Rightarrow> nat option \<Rightarrow> bool option \<Rightarrow> string list"
  formatUnitHeaders :: "UnitOfMeasure \<Rightarrow> string list"

section \<open>lib/conversions.ts\<close>

text \<open>
  The constant table \<^verbatim>\<open>multipliers\<close>, one constant per entry: \<open>multipliers_pressure\<close> is
  \<^verbatim>\<open>multipliers.pressure\<close>, \<open>multipliers_springs_newtonsKgf\<close> is
  \<^verbatim>\<open>multipliers.springs.newtonsKgf\<close>, and so on.
\<close>

definition multipliers_springs_newtonsKgf :: real where
  "multipliers_springs_newtonsKgf = 0.1019716212978"

definition multipliers_springs_newtonsLbs :: real where
  "multipliers_springs_newtonsLbs = 0.57101471743224"

definition multipliers_force :: real where
  "multipliers_force = 0.45359236844386"

definition multipliers_pressure :: real where
  "multipliers_pressure = 0.0689475728"

definition multipliers_length :: real where
  "multipliers_length = 0.39370078740214"

definition multipliers_weightNewtonsToMass :: real where
  "multipliers_weightNewtonsToMass = 9.80665"

definition multipliers_speed :: real where
  "multipliers_speed = 0.621371"

definition convertWeightToMass :: "utils \<Rightarrow> strnum \<Rightarrow> WeightUnit \<Rightarrow> real" where
  "convertWeightToMass U val from =
     (let v = ensureFloat U val;
          newtons = (if from = kg then v / multipliers_springs_newtonsKgf
                     else v / multipliers_springs_newtonsLbs)
      in newtons / multipliers_weightNewtonsToMass)"

definition convertPressure :: "utils \<Rightarrow> strnum \<Rightarrow> PressureUnit \<Rightarrow> real" where
  "convertPressure U val from =
     (let v = ensureFloat U val
      in if from = bar then v / multipliers_pressure else v * multipliers_pressure)"

definition convertLength :: "utils \<Rightarrow> strnum \<Rightarrow> LengthUnit \<Rightarrow> real" where
  "convertLength U val from =
     (let v = ensureFloat U val
      in if from = cm then v * multipliers_length else v / multipliers_length)"

definition convertForce :: "utils \<Rightarrow> strnum \<Rightarrow> ForceUnit \<Rightarrow> real" where
  "convertForce U val from =
     (let v = ensureFloat U val
      in if from = ForceUnit.kgf then v / multipliers_force else v * multipliers_force)"

definition convertSpeed :: "utils \<Rightarrow> strnum \<Rightarrow> SpeedUnit \<Rightarrow> real" where
  "convertSpeed U val from =
     (let v = ensureFloat U val
      in if from = mph then v / multipliers_speed else v * multipliers_speed)"

text \<open>
  The two spring-rate enum members are the only values of the type, so the fall-through
  \<^verbatim>\<open>return v\<close> of the two functions below is the last, unreachable, branch.
\<close>

definition convertSpringRateToNewtons :: "utils \<Rightarrow> strnum \<Rightarrow> SpringRateUnit \<Rightarrow> real" where
  "convertSpringRateToNewtons U val from =
     (let v = ensureFloat U val
      in if from = SpringRateUnit.kgf then v / multipliers_springs_newtonsKgf
         else if from = lbs then v / multipliers_springs_newtonsLbs
         else v)"

definition convertSpringRateFromNewtons :: "real \<Rightarrow> SpringRateUnit \<Rightarrow> real" where
  "convertSpringRateFromNewtons val to =
     (if to = SpringRateUnit.kgf then val * multipliers_springs_newtonsKgf
      else if to = lbs then val * multipliers_springs_newtonsLbs
      else val)"

definition convertSpringRate :: "utils \<Rightarrow> strnum \<Rightarrow> SpringRateUnit \<Rightarrow> SpringRateUnit \<Rightarrow> real" where
  "convertSpringRate U val from to =
     (let newtons = convertSpringRateToNewtons U val from
      in convertSpringRateFromNewtons newtons to)"

text \<open>
  The two lookup tables are association lists in the order of the source; a key that is
  missing reads as \<^verbatim>\<open>undefined\<close>, which is \<open>None\<close> here.
\<close>

definition convertToMap :: "utils \<Rightarrow> (UnitOfMeasure \<times> (strnum \<Rightarrow> real)) list" where
  "convertToMap U =
     [ (Pressure bar, \<lambda>val. convertPressure U val psi),
       (Pressure psi, \<lambda>val. convertPressure U val bar),
       (SpringRate SpringRateUnit.kgf, \<lambda>val. convertSpringRate U val SpringRateUnit.kgf lbs),
       (SpringRate lbs, \<lambda>val. convertSpringRate U val lbs SpringRateUnit.kgf),
       (Length cm, \<lambda>val. convertLength U val inch),
       (Length inch, \<lambda>val. convertLength U val cm),
       (Force ForceUnit.kgf, \<lambda>val. convertForce U val lbf),
       (Force lbf, \<lambda>val. convertForce U val ForceUnit.kgf),
       (Speed kph, \<lambda>val. convertSpeed U val mph),
       (Speed mph, \<lambda>val. convertSpeed U val kph) ]"

text \<open>
  \<^verbatim>\<open>convertTo(value, to, precision = 0)\<close>: an omitted precision is \<open>None\<close>. Calling the
  \<^verbatim>\<open>undefined\<close> entry of a missing key raises TypeError, and \<^verbatim>\<open>toFixed\<close> raises RangeError
  for more than 100 digits.
\<close>

definition convertTo :: "utils \<Rightarrow> strnum \<Rightarrow> UnitOfMeasure \<Rightarrow> nat option \<Rightarrow> error + string" where
  "convertTo U val to precision =
     (let p = (case precision of None \<Rightarrow> 0 | Some d \<Rightarrow> d)
      in case map_of (convertToMap U) to of
           None \<Rightarrow> Inl TypeError
         | Some f \<Rightarrow> if 100 < p then Inl RangeError else Inr (toFixed (Finite (f val)) p))"

definition switchUnitMap :: "(UnitOfMeasure \<times> UnitOfMeasure) list" where
  "switchUnitMap =
     [ (Pressure bar, Pressure psi),
       (Pressure psi, Pressure bar),
       (SpringRate SpringRateUnit.kgf, SpringRate lbs),
       (SpringRate lbs, SpringRate SpringRateUnit.kgf),
       (Length cm, Length inch),
       (Length inch, Length cm),
       (Force ForceUnit.kgf, Force lbf),
       (Force lbf, Force ForceUnit.kgf),
       (Speed kph, Speed mph),
       (Speed mph, Speed kph) ]"

definition switchUnit :: "UnitOfMeasure \<Rightarrow> UnitOfMeasure option" where
  "switchUnit unit = map_of switchUnitMap unit"

section \<open>The tuning record (lib/types.ts and FMSetup.ts)\<close>

text \<open>
  Modelled from the spec: the setting interfaces of \<^verbatim>\<open>lib/types.ts\<close>, which is not among
  the sources; their fields are the ones the two generators and the default form of
  \<^verbatim>\<open>FMSetup.ts\<close> read and write. Every section carries the optional flag \<^verbatim>\<open>na\<close> (absent
  reads as false), so the flag is the common parent record and \<open>na\<close>, \<open>front\<close> and \<open>rear\<close>
  are one selector each. \<^verbatim>\<open>TuneSettings\<close> and \<^verbatim>\<open>PerformanceUpgrades\<close> keep the fields that
  the functions modelled below read.
\<close>

record Section =
  na :: bool

record 'a FrontAndRearSettings = Section +
  front :: 'a
  rear :: 'a

record FrontAndRearWithUnits = "string FrontAndRearSettings" +
  units :: UnitOfMeasure

record AccelDecelSettings =
  accel :: string
  decel :: string

record DifferentialTuneSettings = "AccelDecelSettings FrontAndRearSettings" +
  center :: string

record GearTuneSettings = Section +
  ratios :: "string list"

record BrakeTuneSettings = Section +
  bias :: string
  pressure :: string

record SteeringWheelTuneSettings = Section +
  ffbScale :: string
  steeringLockRange :: string

type_synonym DriveType = string

record ConversionSettings =
  aspiration :: string
  bodyKit :: string
  engine :: string
  drivetrain :: DriveType

record PerformanceUpgrades =
  conversions :: ConversionSettings

record TuneSettings =
  tires :: FrontAndRearWithUnits
  gears :: GearTuneSettings
  arb :: "string FrontAndRearSettings"
  springs :: FrontAndRearWithUnits
  rideHeight :: FrontAndRearWithUnits
  brake :: BrakeTuneSettings
  diff :: DifferentialTuneSettings
  steeringWheel :: SteeringWheelTuneSettings

text \<open>
  The tune of \<^verbatim>\<open>getFMDefaultFormV2\<close> (FMSetup.ts), for the fields kept above. Its \<^verbatim>\<open>tires\<close>
  has no \<^verbatim>\<open>na\<close>, which reads as false; its spring-rate unit is written
  \<^verbatim>\<open>SpringRateUnit.kgfmm\<close> there and is the kgf member here.
\<close>

definition defaultTune :: TuneSettings where
  "defaultTune =
     \<lparr> tires = \<lparr> na = False, front = '''', rear = '''', units = Pressure bar \<rparr>,
       gears = \<lparr> na = False,
                 ratios = ['''', '''', '''', '''', '''', '''', '''', '''', '''', '''', ''''] \<rparr>,
       arb = \<lparr> na = False, front = '''', rear = '''' \<rparr>,
       springs = \<lparr> na = False, front = '''', rear = '''', units = SpringRate SpringRateUnit.kgf \<rparr>,
       rideHeight = \<lparr> na = False, front = '''', rear = '''', units = Length cm \<rparr>,
       brake = \<lparr> na = False, bias = '''', pressure = '''' \<rparr>,
       diff = \<lparr> na = False, front = \<lparr> accel = '''', decel = '''' \<rparr>,
                rear = \<lparr> accel = '''', decel = '''' \<rparr>, center = '''' \<rparr>,
       steeringWheel = \<lparr> na = True, ffbScale = '''', steeringLockRange = '''' \<rparr> \<rparr>"

section \<open>What the two generators share\<close>

text \<open>
  Both files declare \<^verbatim>\<open>falseyValues\<close>, \<^verbatim>\<open>showValue\<close>, \<^verbatim>\<open>TextAlign\<close> and \<^verbatim>\<open>separate\<close> with the same
  text. The fields tested are strings, so the entries \<^verbatim>\<open>null\<close> and \<^verbatim>\<open>undefined\<close> of
  \<^verbatim>\<open>falseyValues\<close> never match and are left out.
\<close>

definition falseyValues :: "string list" where
  "falseyValues = ['''', ''N/A'', ''Stock'', ''None'']"

definition showValue :: "string \<Rightarrow> bool" where
  "showValue v = (v \<notin> set falseyValues)"

definition showFrontRearValues :: "(string, 'b) FrontAndRearSettings_scheme \<Rightarrow> bool" where
  "showFrontRearValues vals = (showValue (front vals) \<or> showValue (rear vals))"

datatype TextAlign = align_left | align_right | align_center

fun textAlignValue :: "TextAlign \<Rightarrow> string" where
  "textAlignValue align_left = '':--''"
| "textAlignValue align_right = ''--:''"
| "textAlignValue align_center = '':-:''"

fun separate :: "string list \<Rightarrow> string \<Rightarrow> string list" where
  "separate [] separator = []"
| "separate [x] separator = [x]"
| "separate (x # y # xs) separator = x # separator # separate (y # xs) separator"

text \<open>\<^verbatim>\<open>tune.gears.ratios[0]\<close>: \<^verbatim>\<open>undefined\<close> (\<open>None\<close>) on an empty array.\<close>

fun firstRatio :: "string list \<Rightarrow> string option" where
  "firstRatio [] = None"
| "firstRatio (r # rs) = Some r"

text \<open>\<^verbatim>\<open>parseFloat(tune.gears.ratios[0])\<close>: \<^verbatim>\<open>undefined\<close> reads as the text "undefined".\<close>

definition parseFirstRatio :: "string list \<Rightarrow> number" where
  "parseFirstRatio rs = (case firstRatio rs of None \<Rightarrow> NaN | Some r \<Rightarrow> parseFloat r)"

section \<open>The chat renderer (fm-discord-generator.ts)\<close>

definition tableSeparator_discord :: string where
  "tableSeparator_discord = ''''"

definition h1 :: "string \<Rightarrow> string" where
  "h1 txt = ''== '' @ txt @ '' =='' @ [CHR 0x0A]"

definition h2 :: "string \<Rightarrow> string" where
  "h2 txt = ''-- '' @ txt @ '' --''"

text \<open>
  \<^verbatim>\<open>getColumnWidths\<close>: an entry of \<^verbatim>\<open>widths\<close> is a length or NaN (\<open>None\<close>).
  \<^verbatim>\<open>widths[index] = Math.max(widths[index], cell.length)\<close> beyond the end of the array
  reads \<^verbatim>\<open>undefined\<close>, whose maximum with any number is NaN, and extends the array; NaN
  stays NaN. \<^verbatim>\<open>rows[0].length\<close> on an empty array raises TypeError (\<open>None\<close> here).
\<close>

definition setWidth :: "nat option list \<Rightarrow> nat \<Rightarrow> nat \<Rightarrow> nat option list" where
  "setWidth widths index len =
     (if index < length widths
      then widths[index := (case widths ! index of None \<Rightarrow> None | Some w \<Rightarrow> Some (max w len))]
      else widths @ replicate (index - length widths) None @ [None])"

definition rowWidths :: "nat option list \<Rightarrow> string list \<Rightarrow> nat option list" where
  "rowWidths widths row =
     foldl (\<lambda>ws (index, cell). setWidth ws index (length cell)) widths (zip [0 ..< length row] row)"

fun getColumnWidths :: "string list list \<Rightarrow> nat option list option" where
  "getColumnWidths [] = None"
| "getColumnWidths (r # rs) = Some (foldl rowWidths (replicate (length r) (Some 0)) (r # rs))"

text \<open>
  \<^verbatim>\<open>widths[index]\<close> as the argument of \<^verbatim>\<open>padEnd\<close> and \<^verbatim>\<open>padStart\<close>: NaN and \<^verbatim>\<open>undefined\<close> pad
  to length 0.
\<close>

definition widthAt :: "nat option list \<Rightarrow> nat \<Rightarrow> nat" where
  "widthAt widths index =
     (if index < length widths then (case widths ! index of None \<Rightarrow> 0 | Some w \<Rightarrow> w) else 0)"

text \<open>The callback that \<^verbatim>\<open>formatTableRow\<close> maps over the cells of a row and their indices.\<close>

definition formatCell_discord :: "nat option list \<Rightarrow> TextAlign \<Rightarrow> nat \<times> string \<Rightarrow> string" where
  "formatCell_discord widths alignment ic =
     (let index = fst ic; cell = snd ic; width = widthAt widths index
      in if cell = ''/'' then cell
         else if alignment = align_center then padEnd (padStart cell (width div 2)) width
         else if alignment = align_left then padEnd cell width
         else padStart cell width)"

definition formatTableRow_discord :: "string list \<Rightarrow> nat option list \<Rightarrow> TextAlign \<Rightarrow> string" where
  "formatTableRow_discord row widths alignment =
     trim (join (map (formatCell_discord widths alignment) (zip [0 ..< length row] row)) '' '')"

text \<open>
  \<^verbatim>\<open>formatTable\<close> returns before \<^verbatim>\<open>getColumnWidths\<close> when the body is empty, so the
  \<open>None\<close> of \<open>getColumnWidths\<close> is never met there.
\<close>

definition formatTable_discord :: "string \<Rightarrow> string list list \<Rightarrow> TextAlign \<Rightarrow> string list" where
  "formatTable_discord header body alignment =
     (if length body = 0 then []
      else case getColumnWidths body of
             None \<Rightarrow> []
           | Some widths \<Rightarrow>
               (if header \<noteq> '''' then [h2 header] else []) @
               map (\<lambda>row. formatTableRow_discord row widths alignment) body @
               [tableSeparator_discord])"

definition formatFrontRearWithUnit_discord ::
    "unitsOfMeasure \<Rightarrow> string \<Rightarrow> FrontAndRearWithUnits \<Rightarrow> nat \<Rightarrow> bool \<Rightarrow> string list" where
  "formatFrontRearWithUnit_discord M header val precision showAll =
     (if na val then []
      else
        (let body0 = [];
             body1 =
               (if showAll \<or> showValue (front val)
                then
                  (let numValue = (if front val = ''Stock'' then Num 0 else Str (front val))
                   in body0 @ [''F '' # separate (formatUnit M numValue (units val) (Some precision) (Some True)) ''/''])
                else body0);
             body2 =
               (if showAll \<or> showValue (rear val)
                then
                  (let numValue = (if front val = ''Stock'' then Num 0 else Str (rear val))
                   in body1 @ [''R '' # separate (formatUnit M numValue (units val) (Some precision) (Some True)) ''/''])
                else body1)
         in if length body2 = 0 then [] else formatTable_discord header body2 align_right))"

text \<open>
  The loop of \<^verbatim>\<open>formatGears\<close> over \<^verbatim>\<open>ratios[1..]\<close>: \<open>gearRows_discord U rs index\<close> is what the
  loop pushes from \<open>index\<close> on, \<open>rs\<close> being the entries from there.
\<close>

fun gearRows_discord :: "utils \<Rightarrow> string list \<Rightarrow> nat \<Rightarrow> string list list" where
  "gearRows_discord U [] index = []"
| "gearRows_discord U (r # rs) index =
     (if \<not> showValue r then []
      else [showNat index @ addSuffix U index, toFixed (parseFloat r) 2]
             # gearRows_discord U rs (index + 1))"

text \<open>The array \<^verbatim>\<open>body\<close> of \<^verbatim>\<open>formatGears\<close>: the final-drive row, then what the loop pushes.\<close>

definition gearsBody_discord :: "utils \<Rightarrow> string list \<Rightarrow> string list list" where
  "gearsBody_discord U rs = [''FR'', toFixed (parseFirstRatio rs) 2] # gearRows_discord U (drop 1 rs) 1"

definition formatGears_discord :: "utils \<Rightarrow> TuneSettings \<Rightarrow> string list" where
  "formatGears_discord U tune =
     (if na (gears tune) then []
      else
        (let body = gearsBody_discord U (ratios (gears tune))
         in if length body = 1 \<and> firstRatio (ratios (gears tune)) = Some '''' then []
            else h1 ''Gearing'' # formatTable_discord '''' body align_left))"

text \<open>The array \<^verbatim>\<open>lines\<close> of \<^verbatim>\<open>formatBrakes\<close> after its two conditional pushes.\<close>

definition brakeLines_discord :: "utils \<Rightarrow> TuneSettings \<Rightarrow> string list list" where
  "brakeLines_discord U tune =
     (let lines0 = [];
          lines1 =
            (if showValue (bias (brake tune)) \<and> bias (brake tune) \<noteq> ''50''
             then lines0 @ [[''Balance'', formatFloat U (bias (brake tune)) 0 ''%'']]
             else lines0);
          lines2 =
            (if showValue (pressure (brake tune)) \<and> pressure (brake tune) \<noteq> ''100''
             then lines1 @ [[''Pressure'', formatFloat U (pressure (brake tune)) 0 ''%'']]
             else lines1)
      in lines2)"

definition formatBrakes_discord :: "utils \<Rightarrow> TuneSettings \<Rightarrow> string list" where
  "formatBrakes_discord U tune =
     (if na (brake tune) then []
      else
        (let lines = brakeLines_discord U tune
         in if length lines = 0 then []
            else h1 ''Brakes'' # formatTable_discord '''' lines align_left))"

definition formatDiffLine :: "utils \<Rightarrow> string \<Rightarrow> AccelDecelSettings \<Rightarrow> string list" where
  "formatDiffLine U label setting =
     (let line1 = (if showValue (accel setting) then formatFloat U (accel setting) 0 ''%'' else ''-'');
          line2 = (if showValue (decel setting) then formatFloat U (decel setting) 0 ''%'' else ''-'')
      in if line1 = ''-'' \<and> line2 = ''-'' then [] else [label, line1, line2])"

definition formatDifferential_discord ::
    "utils \<Rightarrow> DifferentialTuneSettings \<Rightarrow> DriveType \<Rightarrow> string list" where
  "formatDifferential_discord U d driveType =
     (if na d then []
      else
        (let lines0 = [];
             body0 = [];
             frontLine = formatDiffLine U ''F '' (front d);
             body1 = (if length frontLine \<noteq> 0 then body0 @ [frontLine] else body0);
             rearLine = formatDiffLine U ''R '' (rear d);
             body2 = (if length rearLine \<noteq> 0 then body1 @ [rearLine] else body1);
             lines1 =
               (if length body2 \<noteq> 0
                then lines0 @ formatTable_discord '''' ([''-'', ''Accel'', ''Decel''] # body2) align_left
                else lines0);
             lines2 =
               (if showValue (center d) \<and> center d \<noteq> ''50''
                then lines1 @ [''Center '' @ formatFloat U (center d) 0 ''%'', '''']
                else lines1)
         in if length lines2 = 0 then [] else h1 ''Differential'' # lines2))"

text \<open>The array \<^verbatim>\<open>lines\<close> of \<^verbatim>\<open>formatSteeringWheel\<close> after its two conditional pushes.\<close>

definition steeringLines_discord :: "TuneSettings \<Rightarrow> string list list" where
  "steeringLines_discord tune =
     (let lines0 = [];
          lines1 =
            (if showValue (ffbScale (steeringWheel tune)) \<and> ffbScale (steeringWheel tune) \<noteq> ''100''
             then lines0 @ [[''FFB Scale'', ffbScale (steeringWheel tune)]]
             else lines0);
          lines2 =
            (if showValue (steeringLockRange (steeringWheel tune))
                \<and> steeringLockRange (steeringWheel tune) \<noteq> ''900''
             then lines1 @ [[''Steering Lock'', steeringLockRange (steeringWheel tune)]]
             else lines1)
      in lines2)"

definition formatSteeringWheel_discord :: "TuneSettings \<Rightarrow> string list" where
  "formatSteeringWheel_discord tune =
     (if na (steeringWheel tune) then []
      else
        (let lines = steeringLines_discord tune
         in if length lines = 0 then []
            else h1 ''Steering Wheel'' # formatTable_discord '''' lines align_left))"

section \<open>The markdown renderer (the second file of lib/conversions.ts)\<close>

text \<open>
  The source file \<^verbatim>\<open>src/lib/conversions.ts\<close> holds two files one after the other: the
  conversions, and from its line 210 on the generator whose entry point is
  \<^verbatim>\<open>fmRedditGenerator\<close>. Names that both generators declare carry the suffixes \<open>_discord\<close>
  and \<open>_reddit\<close>.
\<close>

definition tableSeparator_reddit :: string where
  "tableSeparator_reddit = [CHR 0x0A] @ ''######'' @ [CHR 0x0A]"

text \<open>\<^verbatim>\<open>value.replace(/\*\*/g, '')\<close>: every occurrence of two stars, left to right.\<close>

fun removeStars :: "string \<Rightarrow> string" where
  "removeStars [] = []"
| "removeStars [c] = [c]"
| "removeStars (c # d # cs) =
     (if c = CHR ''*'' \<and> d = CHR ''*'' then removeStars cs else c # removeStars (d # cs))"

definition bold_reddit :: "string \<Rightarrow> string" where
  "bold_reddit v = (if v = '''' then v else ''**'' @ removeStars v @ ''**'')"

text \<open>
  On an empty row \<^verbatim>\<open>r[0] = bold(r[0])\<close> stores \<^verbatim>\<open>undefined\<close>, which \<^verbatim>\<open>join\<close> prints as the
  empty text: the row is rendered as the empty row is.
\<close>

definition formatTableRow_reddit :: "string list \<Rightarrow> bool \<Rightarrow> string" where
  "formatTableRow_reddit row boldFirstCol =
     (let r = (if boldFirstCol then (case row of [] \<Rightarrow> [] | c # cs \<Rightarrow> bold_reddit c # cs) else row)
      in ''|'' @ join r ''|'' @ ''|'')"

definition formatTable_reddit ::
    "string list \<Rightarrow> string list list \<Rightarrow> bool \<Rightarrow> TextAlign \<Rightarrow> string list" where
  "formatTable_reddit header body boldFirstCol textAlign =
     (let rowSeparator =
            ['':--'', textAlignValue textAlign] @ replicate (length header - 2) (textAlignValue textAlign)
      in [formatTableRow_reddit (map bold_reddit header) False,
          formatTableRow_reddit rowSeparator False] @
         map (\<lambda>row. formatTableRow_reddit row boldFirstCol) body @
         [tableSeparator_reddit])"

definition formatFrontRearWithUnit_reddit ::
    "unitsOfMeasure \<Rightarrow> string \<Rightarrow> FrontAndRearWithUnits \<Rightarrow> nat \<Rightarrow> string list" where
  "formatFrontRearWithUnit_reddit M header val precision =
     (let headers = header # formatUnitHeaders M (units val)
      in if na val
         then formatTable_reddit headers
                [''Not Applicable'' # formatUnit M (Str '''') (units val) (Some precision) None]
                False align_right
         else
           (let body =
                  [''Front'' # formatUnit M (Str (front val)) (units val) (Some precision) None,
                   ''Rear'' # formatUnit M (Str (rear val)) (units val) (Some precision) None]
            in formatTable_reddit headers body False align_right))"

text \<open>The loop of the markdown \<^verbatim>\<open>formatGears\<close>, which breaks on \<^verbatim>\<open>!value\<close>.\<close>

fun gearRows_reddit :: "utils \<Rightarrow> string list \<Rightarrow> nat \<Rightarrow> string list list" where
  "gearRows_reddit U [] index = []"
| "gearRows_reddit U (r # rs) index =
     (let v = parseFloat r
      in if \<not> truthy v then []
         else [showNat index @ addSuffix U index, toFixed v 2] # gearRows_reddit U rs (index + 1))"

text \<open>The array \<^verbatim>\<open>body\<close> of the markdown \<^verbatim>\<open>formatGears\<close>.\<close>

definition gearsBody_reddit :: "utils \<Rightarrow> string list \<Rightarrow> string list list" where
  "gearsBody_reddit U rs =
     [''Final Drive'', toFixed (parseFirstRatio rs) 2] # gearRows_reddit U (drop 1 rs) 1"

definition formatGears_reddit :: "utils \<Rightarrow> TuneSettings \<Rightarrow> string list" where
  "formatGears_reddit U tune =
     (let headers = [''Gears'', ''Ratio'']
      in if na (gears tune) then formatTable_reddit headers [[''Not Applicable'', '''']] False align_right
         else
           (let body = gearsBody_reddit U (ratios (gears tune))
            in if length body = 1 \<and> firstRatio (ratios (gears tune)) = Some '''' then []
               else formatTable_reddit headers body False align_right))"

definition formatSprings_reddit :: "unitsOfMeasure \<Rightarrow> TuneSettings \<Rightarrow> string list" where
  "formatSprings_reddit M tune =
     (let headers = [''ARBs'', '''']
      in if na (arb tune) then formatTable_reddit headers [[''Not Applicable'', '''']] False align_right
         else formatFrontRearWithUnit_reddit M ''Springs'' (springs tune) 1 @
              formatFrontRearWithUnit_reddit M ''Ride Height'' (rideHeight tune) 1)"

definition formatBrakes_reddit :: "utils \<Rightarrow> TuneSettings \<Rightarrow> string list" where
  "formatBrakes_reddit U tune =
     (let headers = [''Brakes'', ''%'']
      in if bias (brake tune) = '''' \<and> pressure (brake tune) = ''''
         then formatTable_reddit headers [[''Not Applicable'', '''']] False align_right
         else formatTable_reddit headers
                [[''Balance'', formatFloat U (bias (brake tune)) 0 ''%''],
                 [''Pressure'', formatFloat U (pressure (brake tune)) 0 ''%'']]
                False align_right)"

text \<open>The array \<^verbatim>\<open>body\<close> of the markdown \<^verbatim>\<open>formatDifferential\<close> after its three pushes.\<close>

definition differentialBody_reddit :: "utils \<Rightarrow> DifferentialTuneSettings \<Rightarrow> string list list" where
  "differentialBody_reddit U d =
     (let body0 = [];
          body1 =
            (if showValue (accel (front d)) \<or> showValue (decel (front d))
             then body0 @ [[''Front'', formatFloat U (accel (front d)) 0 ''%'',
                            formatFloat U (decel (front d)) 0 ''%'']]
             else body0);
          body2 =
            (if showValue (accel (rear d)) \<or> showValue (decel (rear d))
             then body1 @ [[''Rear'', formatFloat U (accel (rear d)) 0 ''%'',
                            formatFloat U (decel (rear d)) 0 ''%'']]
             else body1);
          body3 =
            (if showValue (center d)
             then body2 @ [[''Center'', formatFloat U (center d) 0 ''%'', '''']]
             else body2)
      in body3)"

definition formatDifferential_reddit ::
    "utils \<Rightarrow> DifferentialTuneSettings \<Rightarrow> DriveType \<Rightarrow> string list" where
  "formatDifferential_reddit U d driveType =
     (let header = [''Differential'', ''Accel'', ''Decel'']
      in if na d then formatTable_reddit header [[''Not Applicable'', '''', '''']] False align_right
         else formatTable_reddit header (differentialBody_reddit U d) False align_right)"

definition formatSteeringWheel_reddit :: "TuneSettings \<Rightarrow> string list" where
  "formatSteeringWheel_reddit tune =
     (let headers = [''Steering Wheel'', '''']
      in if na (steeringWheel tune)
         then formatTable_reddit headers [[''Not Applicable'', '''']] False align_right
         else formatTable_reddit headers
                [[''FFB Scale'', ffbScale (steeringWheel tune)],
                 [''Steering Lock Range'', steeringLockRange (steeringWheel tune)]]
                False align_right)"

text \<open>\<^verbatim>\<open>a || 'Stock'\<close> on a string: the empty string is the only falsy one.\<close>

definition orStock :: "string \<Rightarrow> string" where
  "orStock v = (if v = '''' then ''Stock'' else v)"

text \<open>
  The array \<^verbatim>\<open>body\<close> of \<^verbatim>\<open>formatConversions\<close>. Both conditional pushes test
  \<^verbatim>\<open>upgrades.conversions.aspiration\<close>, as the source does.
\<close>

definition conversionsBody_reddit :: "PerformanceUpgrades \<Rightarrow> DriveType \<Rightarrow> string list list" where
  "conversionsBody_reddit upgrades driveType =
     (let body0 =
            [[''Engine'', orStock (engine (conversions upgrades))],
             [''Drivetrain'', orStock driveType]];
          body1 =
            (if aspiration (conversions upgrades) \<noteq> ''''
             then body0 @ [[''Aspiration'', orStock (aspiration (conversions upgrades))]]
             else body0);
          body2 =
            (if aspiration (conversions upgrades) \<noteq> ''''
             then body1 @ [[''Body Kit'', orStock (bodyKit (conversions upgrades))]]
             else body1)
      in body2)"

definition formatConversions_reddit :: "PerformanceUpgrades \<Rightarrow> DriveType \<Rightarrow> string list" where
  "formatConversions_reddit upgrades driveType =
     (let headers = [''Conversions'', '''']
      in formatTable_reddit headers (conversionsBody_reddit upgrades driveType) False align_left)"

section \<open>A model of the missing helpers\<close>

text \<open>
  Modelled from the spec: \<^verbatim>\<open>ensureFloat\<close> of lib/utils.ts, which is not among the sources.
  "Parse as float, default to 0 on failure"; a number is passed through. An infinite parse
  result has no place among the finite values and reads as 0 as well.
\<close>

definition ensureFloat_spec :: "strnum \<Rightarrow> real" where
  "ensureFloat_spec val =
     (case val of
        Num x \<Rightarrow> x
      | Str s \<Rightarrow> (case parseFloat s of Finite x \<Rightarrow> x | _ \<Rightarrow> 0))"

text \<open>
  Modelled from the spec: \<^verbatim>\<open>formatFloat\<close> of lib/utils.ts, which is not among the sources.
  "Numeric rendering is fixed-point with the given precision", with the suffix appended; a
  missing value is "rendered as a blank ... cell".
\<close>

definition formatFloat_spec :: "string \<Rightarrow> nat \<Rightarrow> string \<Rightarrow> string" where
  "formatFloat_spec val precision sfx =
     (if val = '''' then '''' else toFixed (Finite (ensureFloat_spec (Str val))) precision @ sfx)"

text \<open>
  Modelled from the spec: \<^verbatim>\<open>addSuffix\<close> of lib/utils.ts, which is not among the sources.
  "1 -> st, 2 -> nd, 3 -> rd, else th, with 11-13 as an exception already th".
\<close>

definition addSuffix_spec :: "nat \<Rightarrow> string" where
  "addSuffix_spec n =
     (if n mod 100 = 11 \<or> n mod 100 = 12 \<or> n mod 100 = 13 then ''th''
      else if n mod 10 = 1 then ''st''
      else if n mod 10 = 2 then ''nd''
      else if n mod 10 = 3 then ''rd''
      else ''th'')"

definition utils_spec :: utils where
  "utils_spec =
     \<lparr> ensureFloat = ensureFloat_spec, formatFloat = formatFloat_spec, addSuffix = addSuffix_spec \<rparr>"

text \<open>
  Modelled from the spec: the unit labels of lib/unitsOfMeasure.ts, which is not among the
  sources. The spec shows "bar" and "psi" and speaks of kgf/mm and lbs/in for the spring
  rates; the other labels are the names of the enum members.
\<close>

fun unitLabel_spec :: "UnitOfMeasure \<Rightarrow> string" where
  "unitLabel_spec (Pressure bar) = ''bar''"
| "unitLabel_spec (Pressure psi) = ''psi''"
| "unitLabel_spec (SpringRate SpringRateUnit.kgf) = ''kgf/mm''"
| "unitLabel_spec (SpringRate lbs) = ''lbs/in''"
| "unitLabel_spec (Length cm) = ''cm''"
| "unitLabel_spec (Length inch) = ''in''"
| "unitLabel_spec (Force ForceUnit.kgf) = ''kgf''"
| "unitLabel_spec (Force lbf) = ''lbf''"
| "unitLabel_spec (Speed kph) = ''kph''"
| "unitLabel_spec (Speed mph) = ''mph''"

text \<open>
  The spec's reading of a conversion: the number obtained by converting a value from the
  unit \<open>from\<close> into the unit paired with it.
\<close>

fun convertFrom_spec :: "utils \<Rightarrow> strnum \<Rightarrow> UnitOfMeasure \<Rightarrow> real" where
  "convertFrom_spec U val (Pressure u) = convertPressure U val u"
| "convertFrom_spec U val (SpringRate SpringRateUnit.kgf) = convertSpringRate U val SpringRateUnit.kgf lbs"
| "convertFrom_spec U val (SpringRate lbs) = convertSpringRate U val lbs SpringRateUnit.kgf"
| "convertFrom_spec U val (Length u) = convertLength U val u"
| "convertFrom_spec U val (Force u) = convertForce U val u"
| "convertFrom_spec U val (Speed u) = convertSpeed U val u"

text \<open>
  Modelled from the spec: \<^verbatim>\<open>formatUnit\<close> and \<^verbatim>\<open>formatUnitHeaders\<close> of lib/unitsOfMeasure.ts,
  which is not among the sources. \<^verbatim>\<open>formatUnit\<close> "returns a 2-element sequence
  [primaryDisplay, secondaryDisplay], each independently formatted with its own precision
  and optional trailing unit label"; an empty value "must short-circuit to a blank display
  pair"; the suffix "is a literal unit string appended after a space". An omitted
  precision is taken as 1 and an omitted suffix flag as false.
\<close>

definition withLabel_spec :: "bool \<Rightarrow> string \<Rightarrow> UnitOfMeasure option \<Rightarrow> string" where
  "withLabel_spec showUnit txt unit =
     (case unit of
        None \<Rightarrow> txt
      | Some u \<Rightarrow> if showUnit then txt @ '' '' @ unitLabel_spec u else txt)"

definition formatUnit_spec ::
    "strnum \<Rightarrow> UnitOfMeasure \<Rightarrow> nat option \<Rightarrow> bool option \<Rightarrow> string list" where
  "formatUnit_spec val unit precision showUnit =
     (let p = (case precision of None \<Rightarrow> 1 | Some d \<Rightarrow> d);
          s = (case showUnit of None \<Rightarrow> False | Some b \<Rightarrow> b)
      in if val = Str '''' then ['''', '''']
         else [withLabel_spec s (toFixed (Finite (ensureFloat_spec val)) p) (Some unit),
               withLabel_spec s (toFixed (Finite (convertFrom_spec utils_spec val unit)) p) (switchUnit unit)])"

definition formatUnitHeaders_spec :: "UnitOfMeasure \<Rightarrow> string list" where
  "formatUnitHeaders_spec unit =
     [unitLabel_spec unit, (case switchUnit unit of None \<Rightarrow> '''' | Some u \<Rightarrow> unitLabel_spec u)]"

definition unitsOfMeasure_spec :: unitsOfMeasure where
  "unitsOfMeasure_spec =
     \<lparr> formatUnit = formatUnit_spec, formatUnitHeaders = formatUnitHeaders_spec \<rparr>"

section \<open>The specification's readings, and concrete inputs\<close>

text \<open>
  \<open>convertTo\<close> as the specification reads it: the value is converted from the unit paired
  with \<open>to\<close> into \<open>to\<close>, the pairing being looked up in \<open>switchUnitMap\<close>, and rendered in
  fixed-point.
\<close>

definition convertTo_spec :: "utils \<Rightarrow> strnum \<Rightarrow> UnitOfMeasure \<Rightarrow> nat option \<Rightarrow> error + string" where
  "convertTo_spec U val to precision =
     (let p = (case precision of None \<Rightarrow> 0 | Some d \<Rightarrow> d)
      in case switchUnit to of
           None \<Rightarrow> Inl TypeError
         | Some from \<Rightarrow>
             if 100 < p then Inl RangeError else Inr (toFixed (Finite (convertFrom_spec U val from)) p))"

text \<open>A line of a rendered report starts with the given text, as a table row does with its label.\<close>

definition emitsRow :: "string \<Rightarrow> string list \<Rightarrow> bool" where
  "emitsRow label out = (\<exists>l \<in> set out. prefix label l)"

text \<open>
  One gear row per entry, in index order from \<open>i\<close> on: the ordinal of the index and the ratio
  with two decimals.
\<close>

definition gearRowsOf :: "utils \<Rightarrow> nat \<Rightarrow> string list \<Rightarrow> string list list" where
  "gearRowsOf U i rs =
     map (\<lambda>(k, r). [showNat k @ addSuffix U k, toFixed (parseFloat r) 2]) (zip [i ..< i + length rs] rs)"

text \<open>The differential of the specification's section-suppression scenario.\<close>

definition differentialScenario :: DifferentialTuneSettings where
  "differentialScenario =
     \<lparr> na = False,
       front = \<lparr> accel = ''50'', decel = ''50'' \<rparr>,
       rear = \<lparr> accel = '''', decel = '''' \<rparr>,
       center = ''50'' \<rparr>"

text \<open>
  The gear ratios of the specification's truncation example, and three variations: a zero
  ratio, a sentinel and a blank before a later ratio.
\<close>

definition gearsExample :: TuneSettings where
  "gearsExample = defaultTune \<lparr> gears := \<lparr> na = False,
      ratios = [''3.50'', ''2.10'', ''1.40'', '''', '''', '''', '''', '''', '''', '''', ''''] \<rparr> \<rparr>"

definition gearsZero :: TuneSettings where
  "gearsZero = defaultTune \<lparr> gears := \<lparr> na = False,
      ratios = [''3.50'', ''0'', ''1.40'', '''', '''', '''', '''', '''', '''', '''', ''''] \<rparr> \<rparr>"

definition gearsSentinel :: TuneSettings where
  "gearsSentinel = defaultTune \<lparr> gears := \<lparr> na = False,
      ratios = [''3.50'', ''N/A'', ''1.40'', '''', '''', '''', '''', '''', '''', '''', ''''] \<rparr> \<rparr>"

definition gearsGap :: TuneSettings where
  "gearsGap = defaultTune \<lparr> gears := \<lparr> na = False,
      ratios = [''3.50'', ''2.10'', '''', ''1.40'', '''', '''', '''', '''', '''', '''', ''''] \<rparr> \<rparr>"

text \<open>A tune whose brake balance and force-feedback scale are at the assumed factory values.\<close>

definition brakesExample :: TuneSettings where
  "brakesExample = defaultTune
     \<lparr> brake := \<lparr> na = False, bias = ''50'', pressure = ''95'' \<rparr>,
       steeringWheel := \<lparr> na = False, ffbScale = ''100'', steeringLockRange = ''540'' \<rparr> \<rparr>"

text \<open>Tire pressures whose front value is the text "Stock".\<close>

definition stockTires :: FrontAndRearWithUnits where
  "stockTires = \<lparr> na = False, front = ''Stock'', rear = ''2.0'', units = Pressure bar \<rparr>"

text \<open>A tune with spring rates whose anti-roll bars are marked not applicable.\<close>

definition springsExample :: TuneSettings where
  "springsExample = defaultTune
     \<lparr> arb := \<lparr> na = True, front = '''', rear = '''' \<rparr>,
       springs := \<lparr> na = False, front = ''100'', rear = ''120'', units = SpringRate SpringRateUnit.kgf \<rparr> \<rparr>"

text \<open>Conversions with a body kit and no aspiration, and with an aspiration and no body kit.\<close>

definition bodyKitOnly :: PerformanceUpgrades where
  "bodyKitOnly =
     \<lparr> conversions = \<lparr> aspiration = '''', bodyKit = ''Widebody'', engine = '''', drivetrain = ''AWD'' \<rparr> \<rparr>"

definition aspirationOnly :: PerformanceUpgrades where
  "aspirationOnly =
     \<lparr> conversions = \<lparr> aspiration = ''Twin Turbo'', bodyKit = '''', engine = '''', drivetrain = ''AWD'' \<rparr> \<rparr>"




text \<open>
  Two tunes whose anti-roll bars are applicable: one with spring rates and a blank ride
  height, one whose springs are marked not applicable and whose ride height is set.
\<close>

definition springsRated :: TuneSettings where
  "springsRated = defaultTune
     \<lparr> springs := \<lparr> na = False, front = ''100'', rear = ''100'', units = SpringRate SpringRateUnit.kgf \<rparr> \<rparr>"

definition springsNotApplicable :: TuneSettings where
  "springsNotApplicable = defaultTune
     \<lparr> springs := \<lparr> na = True, front = ''100'', rear = ''100'', units = SpringRate SpringRateUnit.kgf \<rparr>,
       rideHeight := \<lparr> na = False, front = ''10.0'', rear = ''11.5'', units = Length cm \<rparr> \<rparr>"

section \<open>Properties of the conversions\<close>

lemma switchUnit_simps:
  "switchUnit (Pressure bar) = Some (Pressure psi)"
  "switchUnit (Pressure psi) = Some (Pressure bar)"
  "switchUnit (SpringRate SpringRateUnit.kgf) = Some (SpringRate lbs)"
  "switchUnit (SpringRate lbs) = Some (SpringRate SpringRateUnit.kgf)"
  "switchUnit (Length cm) = Some (Length inch)"
  "switchUnit (Length inch) = Some (Length cm)"
  "switchUnit (Force ForceUnit.kgf) = Some (Force lbf)"
  "switchUnit (Force lbf) = Some (Force ForceUnit.kgf)"
  "switchUnit (Speed kph) = Some (Speed mph)"
  "switchUnit (Speed mph) = Some (Speed kph)"
  by (simp_all add: switchUnit_def switchUnitMap_def)

lemma unit_cases:
  "u \<in> {Pressure bar, Pressure psi, SpringRate SpringRateUnit.kgf, SpringRate lbs, Length cm,
          Length inch, Force ForceUnit.kgf, Force lbf, Speed kph, Speed mph}"
proof (cases u)
  case (Pressure a)
  then show ?thesis by (cases a) simp_all
next
  case (SpringRate a)
  then show ?thesis by (cases a) simp_all
next
  case (Length a)
  then show ?thesis by (cases a) simp_all
next
  case (Force a)
  then show ?thesis by (cases a) simp_all
next
  case (Speed a)
  then show ?thesis by (cases a) simp_all
qed

text \<open>
  C7. \<open>switchUnit\<close> is defined on every unit: the table has ten entries, one for each of
  the ten units and no unit twice. The unit it returns is another unit of the same
  physical quantity, switching twice gives the unit back, and no two units switch to the
  same one.
\<close>

theorem switchUnit_total_involution:
  "(\<exists>v. switchUnit u = Some v \<and> v \<noteq> u \<and> sameQuantity u v \<and> switchUnit v = Some u)
   \<and> (switchUnit u = switchUnit w) = (u = w)
   \<and> length switchUnitMap = 10 \<and> distinct (map fst switchUnitMap)
   \<and> set (map fst switchUnitMap) = UNIV"
proof -
  have inv: "\<exists>v. switchUnit u = Some v \<and> v \<noteq> u \<and> sameQuantity u v \<and> switchUnit v = Some u"
    using unit_cases [of u] by (auto simp: switchUnit_simps)
  have inj: "(switchUnit u = switchUnit w) = (u = w)"
    using unit_cases [of u] unit_cases [of w] by (auto simp: switchUnit_simps)
  have len: "length switchUnitMap = 10" "distinct (map fst switchUnitMap)"
    by (simp_all add: switchUnitMap_def)
  have "v \<in> set (map fst switchUnitMap)" for v
    using unit_cases [of v] by (auto simp: switchUnitMap_def)
  then have univ: "set (map fst switchUnitMap) = UNIV" by blast
  from inv inj len univ show ?thesis by blast
qed

text \<open>
  C8. \<open>convertWeightToMass\<close> divides the value that \<open>ensureFloat\<close> returns by the
  spring-rate newtons constant of the unit (0.1019716212978 for kg, 0.57101471743224
  otherwise) and the quotient by the gravity constant 9.80665.
\<close>

theorem convertWeightToMass_value:
  "convertWeightToMass U v u =
     ensureFloat U v / (if u = kg then 0.1019716212978 else 0.57101471743224) / 9.80665"
  by (simp add: convertWeightToMass_def multipliers_springs_newtonsKgf_def
      multipliers_springs_newtonsLbs_def multipliers_weightNewtonsToMass_def)

text \<open>
  C2. For the pressure, length, force and speed units \<open>convertTo\<close> is the specification's
  reading: the value is converted from the paired unit into \<open>to\<close>. For the two spring-rate
  units it converts the other way round, from \<open>to\<close> into the paired unit: 1 is rendered as
  5.60 (1 kgf/mm in lbs/in) where the specification's reading gives 0.18 (1 lbs/in in
  kgf/mm).
\<close>

theorem convertTo_springRate_reversed:
  "convertTo U val (Pressure a) p = convertTo_spec U val (Pressure a) p
   \<and> convertTo U val (Length b) p = convertTo_spec U val (Length b) p
   \<and> convertTo U val (Force c) p = convertTo_spec U val (Force c) p
   \<and> convertTo U val (Speed d) p = convertTo_spec U val (Speed d) p
   \<and> convertTo U val (SpringRate e) p =
       (if 100 < (case p of None \<Rightarrow> 0 | Some k \<Rightarrow> k) then Inl RangeError
        else Inr (toFixed (Finite (convertFrom_spec U val (SpringRate e)))
                    (case p of None \<Rightarrow> 0 | Some k \<Rightarrow> k)))
   \<and> convertTo utils_spec (Num 1) (SpringRate SpringRateUnit.kgf) (Some 2) = Inr ''5.60''
   \<and> convertTo_spec utils_spec (Num 1) (SpringRate SpringRateUnit.kgf) (Some 2) = Inr ''0.18''"
proof -
  have 1: "convertTo U val (Pressure a) p = convertTo_spec U val (Pressure a) p"
    by (cases a)
      (simp_all add: convertTo_def convertToMap_def convertTo_spec_def switchUnit_simps Let_def)
  have 2: "convertTo U val (Length b) p = convertTo_spec U val (Length b) p"
    by (cases b)
      (simp_all add: convertTo_def convertToMap_def convertTo_spec_def switchUnit_simps Let_def)
  have 3: "convertTo U val (Force c) p = convertTo_spec U val (Force c) p"
    by (cases c)
      (simp_all add: convertTo_def convertToMap_def convertTo_spec_def switchUnit_simps Let_def)
  have 4: "convertTo U val (Speed d) p = convertTo_spec U val (Speed d) p"
    by (cases d)
      (simp_all add: convertTo_def convertToMap_def convertTo_spec_def switchUnit_simps Let_def)
  have 5: "convertTo U val (SpringRate e) p =
       (if 100 < (case p of None \<Rightarrow> 0 | Some k \<Rightarrow> k) then Inl RangeError
        else Inr (toFixed (Finite (convertFrom_spec U val (SpringRate e)))
                    (case p of None \<Rightarrow> 0 | Some k \<Rightarrow> k)))"
    by (cases e) (simp_all add: convertTo_def convertToMap_def Let_def)
  have 6: "convertTo utils_spec (Num 1) (SpringRate SpringRateUnit.kgf) (Some 2) = Inr ''5.60''"
    by code_simp
  have 7: "convertTo_spec utils_spec (Num 1) (SpringRate SpringRateUnit.kgf) (Some 2) = Inr ''0.18''"
    by code_simp
  from 1 2 3 4 5 6 7 show ?thesis by blast
qed

subsection \<open>Round trips\<close>









section \<open>Properties of the two renderers\<close>

lemma showValue_simps:
  "showValue v = (v \<noteq> '''' \<and> v \<noteq> ''N/A'' \<and> v \<noteq> ''Stock'' \<and> v \<noteq> ''None'')"
  by (auto simp: showValue_def falseyValues_def)

subsection \<open>A chat table row keeps its label\<close>

lemma trim_keeps_prefix:
  assumes "label \<noteq> []" "\<not> isWhiteSpace (hd label)" "\<not> isWhiteSpace (last label)"
  shows "\<exists>t. trim (label @ rest) = label @ t"
proof -
  from assms(1,2) have head_end: "dropWhile isWhiteSpace (label @ rest) = label @ rest"
    by (cases label) simp_all
  from assms(1,3) have tail_end: "dropWhile isWhiteSpace (rev label) = rev label"
    by (cases "rev label") (simp_all add: last_rev [symmetric] hd_rev)
  have "dropWhile isWhiteSpace (rev rest @ rev label) =
          (if \<forall>x\<in>set (rev rest). isWhiteSpace x then rev label
           else dropWhile isWhiteSpace (rev rest) @ rev label)"
    by (simp add: dropWhile_append tail_end)
  then have "trim (label @ rest) =
          (if \<forall>x\<in>set (rev rest). isWhiteSpace x then label
           else label @ rev (dropWhile isWhiteSpace (rev rest)))"
    by (simp add: trim_def head_end)
  then show ?thesis by (cases "\<forall>x\<in>set (rev rest). isWhiteSpace x") auto
qed

lemma join_Cons: "\<exists>t. join (x # xs) sep = x @ t"
  by (cases xs) auto

lemma row_keeps_label:
  assumes "label \<noteq> []" "label \<noteq> ''/''" "\<not> isWhiteSpace (hd label)" "\<not> isWhiteSpace (last label)"
  shows "\<exists>t. formatTableRow_discord (label # cells) widths align_left = label @ t"
proof -
  have z: "zip [0 ..< length (label # cells)] (label # cells) =
            (0, label) # zip [1 ..< Suc (length cells)] cells"
    by (simp add: upt_conv_Cons del: upt_Suc)
  obtain p where p: "formatCell_discord widths align_left (0, label) = label @ p"
    using assms(2) by (simp add: formatCell_discord_def padEnd_def)
  obtain t where "join (map (formatCell_discord widths align_left)
                     (zip [0 ..< length (label # cells)] (label # cells))) '' '' = (label @ p) @ t"
    unfolding z list.map p using join_Cons by blast
  then have "formatTableRow_discord (label # cells) widths align_left = trim (label @ (p @ t))"
    by (simp add: formatTableRow_discord_def)
  with trim_keeps_prefix [OF assms(1,3,4)] show ?thesis by metis
qed

lemma row_prefix_iff:
  assumes "label \<noteq> []" "label \<noteq> ''/''" "\<not> isWhiteSpace (hd label)" "\<not> isWhiteSpace (last label)"
    and "length p \<le> length label"
  shows "prefix p (formatTableRow_discord (label # cells) widths align_left) = prefix p label"
proof -
  obtain t where t: "formatTableRow_discord (label # cells) widths align_left = label @ t"
    using row_keeps_label [OF assms(1-4)] by blast
  have "prefix p (label @ t) \<Longrightarrow> prefix p label"
    using prefix_length_prefix [of p "label @ t" label] assms(5) by simp
  then show ?thesis unfolding t by (auto intro: prefix_prefix)
qed

lemma row_not_prefix:
  assumes "label \<noteq> []" "label \<noteq> ''/''" "\<not> isWhiteSpace (hd label)" "\<not> isWhiteSpace (last label)"
    and "\<not> prefix p label" "\<not> prefix label p"
  shows "prefix p (formatTableRow_discord (label # cells) widths align_left) = False"
proof -
  obtain t where t: "formatTableRow_discord (label # cells) widths align_left = label @ t"
    using row_keeps_label [OF assms(1-4)] by blast
  show ?thesis unfolding t using assms(5,6) by (auto simp: prefix_append)
qed

lemma formatTable_discord_Cons:
  "formatTable_discord '''' (r # rs) al =
     map (\<lambda>row. formatTableRow_discord row (the (getColumnWidths (r # rs))) al) (r # rs) @ ['''']"
  by (simp add: formatTable_discord_def tableSeparator_discord_def)

subsection \<open>The differential scenario\<close>

text \<open>
  C1, as stated, fails: for the differential of the scenario the chat renderer returns
  the heading, the table with its header row and the front row, and a blank line. Only the
  center value is compared with "50".
\<close>

theorem differential_scenario_not_suppressed:
  "formatDifferential_discord utils_spec differentialScenario '''' =
     [''== Differential =='' @ [CHR 0x0A], ''-  Accel Decel'', ''F  50%   50%'', '''']
   \<and> formatDifferential_discord utils_spec differentialScenario '''' \<noteq> []"
  by code_simp

text \<open>
  C1, amended. Whenever \<open>formatFloat\<close> renders "50" with no decimals and the suffix "%" as
  "50%", the chat renderer renders the front row of the scenario (50% and 50%) under the
  heading and leaves out the center line only, and the markdown renderer renders the table
  with the Front row (50% and 50%) and the Center row (50%).
\<close>

theorem differential_scenario:
  "formatFloat U ''50'' 0 ''%'' = ''50%'' \<longrightarrow>
     formatDifferential_discord U differentialScenario driveType =
       [''== Differential =='' @ [CHR 0x0A], ''-  Accel Decel'', ''F  50%   50%'', '''']
     \<and> formatDifferential_reddit U differentialScenario driveType =
         [''|**Differential**|**Accel**|**Decel**|'', ''|:--|--:|--:|'',
          ''|Front|50%|50%|'', ''|Center|50%||'', tableSeparator_reddit]"
proof
  assume f: "formatFloat U ''50'' 0 ''%'' = ''50%''"
  have chat: "formatDifferential_discord U differentialScenario driveType =
       [''== Differential =='' @ [CHR 0x0A], ''-  Accel Decel'', ''F  50%   50%'', '''']"
    using f
    by (simp add: formatDifferential_discord_def differentialScenario_def formatDiffLine_def
        showValue_simps formatTable_discord_def formatTableRow_discord_def formatCell_discord_def
        rowWidths_def setWidth_def widthAt_def padEnd_def padStart_def trim_def isWhiteSpace_def
        h1_def tableSeparator_discord_def Let_def)
  have markdown: "formatDifferential_reddit U differentialScenario driveType =
         [''|**Differential**|**Accel**|**Decel**|'', ''|:--|--:|--:|'',
          ''|Front|50%|50%|'', ''|Center|50%||'', tableSeparator_reddit]"
    using f
    by (simp add: formatDifferential_reddit_def differentialBody_reddit_def differentialScenario_def
        showValue_simps formatTable_reddit_def formatTableRow_reddit_def bold_reddit_def Let_def)
  from chat markdown
  show "formatDifferential_discord U differentialScenario driveType =
       [''== Differential =='' @ [CHR 0x0A], ''-  Accel Decel'', ''F  50%   50%'', '''']
     \<and> formatDifferential_reddit U differentialScenario driveType =
         [''|**Differential**|**Accel**|**Decel**|'', ''|:--|--:|--:|'',
          ''|Front|50%|50%|'', ''|Center|50%||'', tableSeparator_reddit]"
    by (rule conjI)
qed

theorem differential_scenario_witness:
  "formatFloat utils_spec ''50'' 0 ''%'' = ''50%''
   \<and> formatDifferential_discord utils_spec differentialScenario ''AWD'' =
       [''== Differential =='' @ [CHR 0x0A], ''-  Accel Decel'', ''F  50%   50%'', '''']
   \<and> formatDifferential_reddit utils_spec differentialScenario ''AWD'' =
         [''|**Differential**|**Accel**|**Decel**|'', ''|:--|--:|--:|'',
          ''|Front|50%|50%|'', ''|Center|50%||'', tableSeparator_reddit]"
proof -
  have f: "formatFloat utils_spec ''50'' 0 ''%'' = ''50%''"
    by code_simp
  from differential_scenario [of utils_spec "''AWD''"] f show ?thesis
    by blast
qed

subsection \<open>Gear rows\<close>

lemma gearRowsOf_Nil: "gearRowsOf U i [] = []"
  by (simp add: gearRowsOf_def)

lemma gearRowsOf_Cons:
  "gearRowsOf U i (r # rs) =
     [showNat i @ addSuffix U i, toFixed (parseFloat r) 2] # gearRowsOf U (Suc i) rs"
  by (simp add: gearRowsOf_def upt_conv_Cons del: upt_Suc)

lemma gearRows_reddit_takeWhile:
  "gearRows_reddit U rs i = gearRowsOf U i (takeWhile (\<lambda>r. truthy (parseFloat r)) rs)"
  by (induction rs arbitrary: i) (simp_all add: gearRowsOf_Nil gearRowsOf_Cons Let_def)

lemma gearRows_discord_takeWhile:
  "gearRows_discord U rs i = gearRowsOf U i (takeWhile showValue rs)"
  by (induction rs arbitrary: i) (simp_all add: gearRowsOf_Nil gearRowsOf_Cons)

lemma length_gearRowsOf: "length (gearRowsOf U i rs) = length rs"
  by (simp add: gearRowsOf_def)

lemma takeWhile_length_mono:
  assumes "\<And>x. P x \<Longrightarrow> Q x"
  shows "length (takeWhile P xs) \<le> length (takeWhile Q xs)"
  using assms by (induction xs) auto

lemma parseFloat_empty: "parseFloat '''' = NaN"
  by (simp add: parseFloat_def)

lemma length_formatTable_reddit: "length (formatTable_reddit h b f a) = 3 + length b"
  by (simp add: formatTable_reddit_def)

lemma length_formatTable_discord_empty_header:
  "length (formatTable_discord '''' (r # rs) a) = 2 + length rs"
  by (simp add: formatTable_discord_def)

lemma formatGears_reddit_rows:
  assumes "\<not> na (gears tune)" "ratios (gears tune) = r0 # rest" "r0 \<noteq> ''''"
  shows "formatGears_reddit U tune =
           formatTable_reddit [''Gears'', ''Ratio'']
             ([''Final Drive'', toFixed (parseFloat r0) 2]
                # gearRowsOf U 1 (takeWhile (\<lambda>r. truthy (parseFloat r)) rest))
             False align_right"
  using assms
  by (simp add: formatGears_reddit_def gearsBody_reddit_def parseFirstRatio_def
      gearRows_reddit_takeWhile)

lemma formatGears_discord_rows:
  assumes "\<not> na (gears tune)" "ratios (gears tune) = r0 # rest" "r0 \<noteq> ''''"
  shows "formatGears_discord U tune =
           h1 ''Gearing'' #
           formatTable_discord ''''
             ([''FR'', toFixed (parseFloat r0) 2] # gearRowsOf U 1 (takeWhile showValue rest))
             align_left"
  using assms
  by (simp add: formatGears_discord_def gearsBody_discord_def parseFirstRatio_def
      gearRows_discord_takeWhile)

text \<open>
  C3, as stated, fails. In the markdown renderer the ratio "0" ends the rows although it
  is not empty, and the non-empty "1.40" after it gets no row either; in the chat renderer
  the sentinel "N/A" does the same. In both inputs two non-empty ratios stand between the
  final drive and the first empty slot, so the claim asks for three data rows where the
  renderer emits one.
\<close>

theorem gear_rows_end_before_first_empty:
  "formatGears_reddit utils_spec gearsZero =
     [''|**Gears**|**Ratio**|'', ''|:--|--:|'', ''|Final Drive|3.50|'', tableSeparator_reddit]
   \<and> formatGears_discord utils_spec gearsSentinel =
       [''== Gearing =='' @ [CHR 0x0A], ''FR 3.50'', '''']
   \<and> length (takeWhile (\<lambda>r. r \<noteq> '''') (drop 1 (ratios (gears gearsZero)))) = 2
   \<and> length (takeWhile (\<lambda>r. r \<noteq> '''') (drop 1 (ratios (gears gearsSentinel)))) = 2"
  by code_simp

text \<open>
  C3, amended. With \<open>na\<close> false and a non-empty first ratio, both renderers emit the
  final-drive row and then one row per later ratio in index order, up to the first ratio
  that the renderer takes as unset: in the markdown renderer the first one that
  \<open>parseFloat\<close> reads as zero or NaN, in the chat renderer the first one that is a sentinel
  (empty, "N/A", "Stock", "None"). The empty ratio is unset for both, so no entry at or
  after the first empty slot gets a row.
\<close>

theorem gear_rows_until_first_unset:
  "\<not> na (gears tune) \<and> ratios (gears tune) = r0 # rest \<and> r0 \<noteq> '''' \<longrightarrow>
     formatGears_reddit U tune =
       formatTable_reddit [''Gears'', ''Ratio'']
         ([''Final Drive'', toFixed (parseFloat r0) 2]
            # gearRowsOf U 1 (takeWhile (\<lambda>r. truthy (parseFloat r)) rest))
         False align_right
     \<and> formatGears_discord U tune =
         h1 ''Gearing'' #
         formatTable_discord ''''
           ([''FR'', toFixed (parseFloat r0) 2] # gearRowsOf U 1 (takeWhile showValue rest))
           align_left
     \<and> length (formatGears_reddit U tune) =
         3 + (1 + length (takeWhile (\<lambda>r. truthy (parseFloat r)) rest))
     \<and> length (formatGears_discord U tune) = 2 + (1 + length (takeWhile showValue rest))
     \<and> length (takeWhile (\<lambda>r. truthy (parseFloat r)) rest) \<le> length (takeWhile (\<lambda>r. r \<noteq> '''') rest)
     \<and> length (takeWhile showValue rest) \<le> length (takeWhile (\<lambda>r. r \<noteq> '''') rest)"
proof
  assume a: "\<not> na (gears tune) \<and> ratios (gears tune) = r0 # rest \<and> r0 \<noteq> ''''"
  note md = formatGears_reddit_rows [of tune r0 rest U]
  note chat = formatGears_discord_rows [of tune r0 rest U]
  have 1: "length (formatGears_reddit U tune) =
         3 + (1 + length (takeWhile (\<lambda>r. truthy (parseFloat r)) rest))"
    using a by (simp add: md length_formatTable_reddit length_gearRowsOf)
  have 2: "length (formatGears_discord U tune) = 2 + (1 + length (takeWhile showValue rest))"
    using a by (simp add: chat length_formatTable_discord_empty_header length_gearRowsOf)
  have 3: "length (takeWhile (\<lambda>r. truthy (parseFloat r)) rest) \<le> length (takeWhile (\<lambda>r. r \<noteq> '''') rest)"
    by (rule takeWhile_length_mono) (auto simp: parseFloat_empty)
  have 4: "length (takeWhile showValue rest) \<le> length (takeWhile (\<lambda>r. r \<noteq> '''') rest)"
    by (rule takeWhile_length_mono) (auto simp: showValue_simps)
  from a md chat 1 2 3 4
  show "formatGears_reddit U tune =
       formatTable_reddit [''Gears'', ''Ratio'']
         ([''Final Drive'', toFixed (parseFloat r0) 2]
            # gearRowsOf U 1 (takeWhile (\<lambda>r. truthy (parseFloat r)) rest))
         False align_right
     \<and> formatGears_discord U tune =
         h1 ''Gearing'' #
         formatTable_discord ''''
           ([''FR'', toFixed (parseFloat r0) 2] # gearRowsOf U 1 (takeWhile showValue rest))
           align_left
     \<and> length (formatGears_reddit U tune) =
         3 + (1 + length (takeWhile (\<lambda>r. truthy (parseFloat r)) rest))
     \<and> length (formatGears_discord U tune) = 2 + (1 + length (takeWhile showValue rest))
     \<and> length (takeWhile (\<lambda>r. truthy (parseFloat r)) rest) \<le> length (takeWhile (\<lambda>r. r \<noteq> '''') rest)
     \<and> length (takeWhile showValue rest) \<le> length (takeWhile (\<lambda>r. r \<noteq> '''') rest)"
    by blast
qed

text \<open>
  The specification's example: three data rows in both renderers, between the two header
  lines and the separator of the markdown table, and between the heading and the blank
  line of the chat table.
\<close>

theorem gear_rows_until_first_unset_witness:
  "\<not> na (gears gearsExample)
   \<and> ratios (gears gearsExample) =
       ''3.50'' # [''2.10'', ''1.40'', '''', '''', '''', '''', '''', '''', '''', '''']
   \<and> ''3.50'' \<noteq> ''''
   \<and> length (formatGears_reddit utils_spec gearsExample) = 3 + 3
   \<and> length (formatGears_discord utils_spec gearsExample) = 2 + 3
   \<and> formatGears_reddit utils_spec gearsExample =
       [''|**Gears**|**Ratio**|'', ''|:--|--:|'', ''|Final Drive|3.50|'', ''|1st|2.10|'',
        ''|2nd|1.40|'', tableSeparator_reddit]
   \<and> formatGears_discord utils_spec gearsExample =
       [''== Gearing =='' @ [CHR 0x0A], ''FR  3.50'', ''1st 2.10'', ''2nd 1.40'', '''']"
proof -
  let ?rest = "[''2.10'', ''1.40'', '''', '''', '''', '''', '''', '''', '''', '''']"
  have h: "\<not> na (gears gearsExample) \<and> ratios (gears gearsExample) = ''3.50'' # ?rest
            \<and> ''3.50'' \<noteq> ''''"
    by (simp add: gearsExample_def)
  have md: "takeWhile (\<lambda>r. truthy (parseFloat r)) ?rest = [''2.10'', ''1.40'']"
    by code_simp
  have chat: "takeWhile showValue ?rest = [''2.10'', ''1.40'']"
    by code_simp
  have out_md: "formatGears_reddit utils_spec gearsExample =
       [''|**Gears**|**Ratio**|'', ''|:--|--:|'', ''|Final Drive|3.50|'', ''|1st|2.10|'',
        ''|2nd|1.40|'', tableSeparator_reddit]"
    by code_simp
  have out_chat: "formatGears_discord utils_spec gearsExample =
       [''== Gearing =='' @ [CHR 0x0A], ''FR  3.50'', ''1st 2.10'', ''2nd 1.40'', '''']"
    by code_simp
  from gear_rows_until_first_unset [of gearsExample "''3.50''" ?rest utils_spec] h
  have "length (formatGears_reddit utils_spec gearsExample) =
          3 + (1 + length (takeWhile (\<lambda>r. truthy (parseFloat r)) ?rest))
        \<and> length (formatGears_discord utils_spec gearsExample) =
          2 + (1 + length (takeWhile showValue ?rest))"
    by blast
  with h md chat out_md out_chat show ?thesis
    by simp
qed

subsection \<open>Visibility thresholds\<close>

lemma brakes_discord_rows:
  assumes "\<not> na (brake tune)"
  shows "emitsRow ''Balance'' (formatBrakes_discord U tune) =
           (showValue (bias (brake tune)) \<and> bias (brake tune) \<noteq> ''50'')"
    and "emitsRow ''Pressure'' (formatBrakes_discord U tune) =
           (showValue (pressure (brake tune)) \<and> pressure (brake tune) \<noteq> ''100'')"
  using assms
  by (auto simp add: formatBrakes_discord_def brakeLines_discord_def Let_def emitsRow_def h1_def
      row_prefix_iff row_not_prefix isWhiteSpace_def showValue_simps formatTable_discord_Cons
      simp del: getColumnWidths.simps)

lemma steering_discord_rows:
  assumes "\<not> na (steeringWheel tune)"
  shows "emitsRow ''FFB Scale'' (formatSteeringWheel_discord tune) =
           (showValue (ffbScale (steeringWheel tune)) \<and> ffbScale (steeringWheel tune) \<noteq> ''100'')"
    and "emitsRow ''Steering Lock'' (formatSteeringWheel_discord tune) =
           (showValue (steeringLockRange (steeringWheel tune))
            \<and> steeringLockRange (steeringWheel tune) \<noteq> ''900'')"
  using assms
  by (auto simp add: formatSteeringWheel_discord_def steeringLines_discord_def Let_def emitsRow_def
      h1_def row_prefix_iff row_not_prefix isWhiteSpace_def showValue_simps formatTable_discord_Cons
      simp del: getColumnWidths.simps)

lemma brakes_reddit_rows:
  assumes "showValue (bias (brake tune)) \<or> showValue (pressure (brake tune))"
  shows "(''|Balance|'' @ formatFloat U (bias (brake tune)) 0 ''%'' @ ''|'')
           \<in> set (formatBrakes_reddit U tune)"
    and "(''|Pressure|'' @ formatFloat U (pressure (brake tune)) 0 ''%'' @ ''|'')
           \<in> set (formatBrakes_reddit U tune)"
  using assms
  by (auto simp: formatBrakes_reddit_def formatTable_reddit_def formatTableRow_reddit_def
      showValue_simps)

lemma steering_reddit_rows:
  assumes "\<not> na (steeringWheel tune)"
  shows "(''|FFB Scale|'' @ ffbScale (steeringWheel tune) @ ''|'')
           \<in> set (formatSteeringWheel_reddit tune)"
    and "(''|Steering Lock Range|'' @ steeringLockRange (steeringWheel tune) @ ''|'')
           \<in> set (formatSteeringWheel_reddit tune)"
  using assms
  by (auto simp: formatSteeringWheel_reddit_def formatTable_reddit_def formatTableRow_reddit_def)

text \<open>
  C5. In the chat renderer, with the section's \<open>na\<close> false, the report has a line starting
  with "Balance" exactly when the bias is no sentinel and not "50", one starting with
  "Pressure" exactly when the pressure is no sentinel and not "100", one starting with
  "FFB Scale" exactly when the scale is no sentinel and not "100", and one starting with
  "Steering Lock" exactly when the lock range is no sentinel and not "900". The markdown
  renderer has the Balance and the Pressure row whenever the field is no sentinel, "50" and
  "100" included, and the two steering rows whenever \<open>na\<close> is false.
\<close>

theorem visibility_thresholds:
  "(\<not> na (brake tune) \<longrightarrow>
      emitsRow ''Balance'' (formatBrakes_discord U tune) =
        (showValue (bias (brake tune)) \<and> bias (brake tune) \<noteq> ''50'')
      \<and> emitsRow ''Pressure'' (formatBrakes_discord U tune) =
        (showValue (pressure (brake tune)) \<and> pressure (brake tune) \<noteq> ''100''))
   \<and> (\<not> na (steeringWheel tune) \<longrightarrow>
      emitsRow ''FFB Scale'' (formatSteeringWheel_discord tune) =
        (showValue (ffbScale (steeringWheel tune)) \<and> ffbScale (steeringWheel tune) \<noteq> ''100'')
      \<and> emitsRow ''Steering Lock'' (formatSteeringWheel_discord tune) =
        (showValue (steeringLockRange (steeringWheel tune))
         \<and> steeringLockRange (steeringWheel tune) \<noteq> ''900''))
   \<and> (showValue (bias (brake tune)) \<longrightarrow>
        (''|Balance|'' @ formatFloat U (bias (brake tune)) 0 ''%'' @ ''|'')
          \<in> set (formatBrakes_reddit U tune))
   \<and> (showValue (pressure (brake tune)) \<longrightarrow>
        (''|Pressure|'' @ formatFloat U (pressure (brake tune)) 0 ''%'' @ ''|'')
          \<in> set (formatBrakes_reddit U tune))
   \<and> (\<not> na (steeringWheel tune) \<longrightarrow>
        (''|FFB Scale|'' @ ffbScale (steeringWheel tune) @ ''|'')
          \<in> set (formatSteeringWheel_reddit tune)
        \<and> (''|Steering Lock Range|'' @ steeringLockRange (steeringWheel tune) @ ''|'')
          \<in> set (formatSteeringWheel_reddit tune))"
  using brakes_discord_rows [of tune U] steering_discord_rows [of tune]
    brakes_reddit_rows [of tune U] steering_reddit_rows [of tune]
  by blast

theorem visibility_thresholds_witness:
  "\<not> na (brake brakesExample) \<and> \<not> na (steeringWheel brakesExample)
   \<and> showValue (bias (brake brakesExample)) \<and> showValue (pressure (brake brakesExample))
   \<and> \<not> emitsRow ''Balance'' (formatBrakes_discord utils_spec brakesExample)
   \<and> emitsRow ''Pressure'' (formatBrakes_discord utils_spec brakesExample)
   \<and> \<not> emitsRow ''FFB Scale'' (formatSteeringWheel_discord brakesExample)
   \<and> emitsRow ''Steering Lock'' (formatSteeringWheel_discord brakesExample)
   \<and> ''|Balance|50%|'' \<in> set (formatBrakes_reddit utils_spec brakesExample)
   \<and> ''|Pressure|95%|'' \<in> set (formatBrakes_reddit utils_spec brakesExample)
   \<and> ''|FFB Scale|100|'' \<in> set (formatSteeringWheel_reddit brakesExample)
   \<and> ''|Steering Lock Range|540|'' \<in> set (formatSteeringWheel_reddit brakesExample)"
proof -
  have fields:
    "na (brake brakesExample) = False" "na (steeringWheel brakesExample) = False"
    "bias (brake brakesExample) = ''50''" "pressure (brake brakesExample) = ''95''"
    "ffbScale (steeringWheel brakesExample) = ''100''"
    "steeringLockRange (steeringWheel brakesExample) = ''540''"
    by (simp_all add: brakesExample_def)
  have shown: "showValue ''50''" "showValue ''95''" "showValue ''100''" "showValue ''540''"
    by (simp_all add: showValue_simps)
  have rendered: "formatFloat utils_spec ''50'' 0 ''%'' = ''50%''"
    "formatFloat utils_spec ''95'' 0 ''%'' = ''95%''"
    by code_simp+
  from visibility_thresholds [of brakesExample utils_spec] show ?thesis
    by (simp add: fields shown rendered)
qed

subsection \<open>The Body Kit row of the conversions table\<close>

text \<open>
  C6. The markdown Conversions table has a line starting with "|Body Kit|" exactly when the
  aspiration is not the empty text, whatever the body kit is; the row is then the body
  kit, or "Stock" for an empty body kit.
\<close>

theorem bodyKit_row_tests_aspiration:
  "emitsRow ''|Body Kit|'' (formatConversions_reddit upgrades driveType) =
     (aspiration (conversions upgrades) \<noteq> '''')
   \<and> ((''|Body Kit|'' @ (if bodyKit (conversions upgrades) = '''' then ''Stock''
                          else bodyKit (conversions upgrades)) @ ''|'')
         \<in> set (formatConversions_reddit upgrades driveType)) =
     (aspiration (conversions upgrades) \<noteq> '''')"
  by (auto simp: formatConversions_reddit_def conversionsBody_reddit_def formatTable_reddit_def
      formatTableRow_reddit_def emitsRow_def bold_reddit_def tableSeparator_reddit_def orStock_def
      Let_def)

theorem bodyKit_row_tests_aspiration_witness:
  "\<not> emitsRow ''|Body Kit|'' (formatConversions_reddit bodyKitOnly ''AWD'')
   \<and> emitsRow ''|Body Kit|'' (formatConversions_reddit aspirationOnly ''AWD'')
   \<and> ''|Body Kit|Stock|'' \<in> set (formatConversions_reddit aspirationOnly ''AWD'')"
  using bodyKit_row_tests_aspiration [of bodyKitOnly "''AWD''"]
    bodyKit_row_tests_aspiration [of aspirationOnly "''AWD''"]
  by (simp add: bodyKitOnly_def aspirationOnly_def)

subsection \<open>The springs section of the markdown renderer\<close>

text \<open>The lines of a unit table, written out.\<close>

lemma formatFrontRearWithUnit_reddit_lines:
  "formatFrontRearWithUnit_reddit M h v p =
     [''|'' @ join (bold_reddit h # map bold_reddit (formatUnitHeaders M (units v))) ''|'' @ ''|'',
      ''|'' @ join ('':--'' # ''--:'' # replicate (length (formatUnitHeaders M (units v)) - 1) ''--:'') ''|'' @ ''|'']
     @ (if na v
        then [''|'' @ join (''Not Applicable'' # formatUnit M (Str '''') (units v) (Some p) None) ''|'' @ ''|'']
        else [''|'' @ join (''Front'' # formatUnit M (Str (front v)) (units v) (Some p) None) ''|'' @ ''|'',
              ''|'' @ join (''Rear'' # formatUnit M (Str (rear v)) (units v) (Some p) None) ''|'' @ ''|''])
     @ [CHR 0x0A # ''######'' @ [CHR 0x0A]]"
  by (simp add: formatFrontRearWithUnit_reddit_def formatTable_reddit_def formatTableRow_reddit_def
      tableSeparator_reddit_def Let_def)

text \<open>
  C9. When the anti-roll bars are not applicable, \<open>formatSprings\<close> is the one "Not
  Applicable" table under the header "ARBs", whatever the springs and the ride height are.
  Otherwise both tables are there, the Springs table followed by the Ride Height table:
  each is its header row (the bold title and the unit headers), its alignment row, its two
  rows Front and Rear with the cells of \<open>formatUnit\<close>, and the separator. The \<open>na\<close> of the
  springs and of the ride height only turns the two rows of its own table into the one
  placeholder row.
\<close>

theorem springs_gated_by_arb:
  "(na (arb tune) \<longrightarrow>
      formatSprings_reddit M tune =
        [''|**ARBs**||'', ''|:--|--:|'', ''|Not Applicable||'', CHR 0x0A # ''######'' @ [CHR 0x0A]])
   \<and> (\<not> na (arb tune) \<longrightarrow>
      formatSprings_reddit M tune =
        [''|'' @ join (''**Springs**'' # map bold_reddit (formatUnitHeaders M (units (springs tune)))) ''|'' @ ''|'',
         ''|'' @ join ('':--'' # ''--:'' #
                  replicate (length (formatUnitHeaders M (units (springs tune))) - 1) ''--:'') ''|'' @ ''|'']
        @ (if na (springs tune)
           then [''|'' @ join (''Not Applicable'' #
                    formatUnit M (Str '''') (units (springs tune)) (Some 1) None) ''|'' @ ''|'']
           else [''|'' @ join (''Front'' #
                    formatUnit M (Str (front (springs tune))) (units (springs tune)) (Some 1) None) ''|'' @ ''|'',
                 ''|'' @ join (''Rear'' #
                    formatUnit M (Str (rear (springs tune))) (units (springs tune)) (Some 1) None) ''|'' @ ''|''])
        @ [CHR 0x0A # ''######'' @ [CHR 0x0A]]
        @ [''|'' @ join (''**Ride Height**'' #
                    map bold_reddit (formatUnitHeaders M (units (rideHeight tune)))) ''|'' @ ''|'',
           ''|'' @ join ('':--'' # ''--:'' #
                    replicate (length (formatUnitHeaders M (units (rideHeight tune))) - 1) ''--:'') ''|'' @ ''|'']
        @ (if na (rideHeight tune)
           then [''|'' @ join (''Not Applicable'' #
                    formatUnit M (Str '''') (units (rideHeight tune)) (Some 1) None) ''|'' @ ''|'']
           else [''|'' @ join (''Front'' #
                    formatUnit M (Str (front (rideHeight tune))) (units (rideHeight tune)) (Some 1) None) ''|'' @ ''|'',
                 ''|'' @ join (''Rear'' #
                    formatUnit M (Str (rear (rideHeight tune))) (units (rideHeight tune)) (Some 1) None) ''|'' @ ''|''])
        @ [CHR 0x0A # ''######'' @ [CHR 0x0A]])"
proof -
  have placeholder: "na (arb tune) \<longrightarrow>
      formatSprings_reddit M tune =
        [''|**ARBs**||'', ''|:--|--:|'', ''|Not Applicable||'', CHR 0x0A # ''######'' @ [CHR 0x0A]]"
    by (simp add: formatSprings_reddit_def formatTable_reddit_def formatTableRow_reddit_def
        bold_reddit_def tableSeparator_reddit_def)
  have titles: "bold_reddit ''Springs'' = ''**Springs**''" "bold_reddit ''Ride Height'' = ''**Ride Height**''"
    by (simp_all add: bold_reddit_def)
  have tables: "\<not> na (arb tune) \<longrightarrow>
      formatSprings_reddit M tune =
        formatFrontRearWithUnit_reddit M ''Springs'' (springs tune) 1 @
        formatFrontRearWithUnit_reddit M ''Ride Height'' (rideHeight tune) 1"
    by (simp add: formatSprings_reddit_def)
  show ?thesis
    using placeholder tables
    unfolding formatFrontRearWithUnit_reddit_lines titles
    by simp
qed


theorem springs_gated_by_arb_witness:
  "na (arb springsExample)
   \<and> formatSprings_reddit unitsOfMeasure_spec springsExample =
       [''|**ARBs**||'', ''|:--|--:|'', ''|Not Applicable||'', CHR 0x0A # ''######'' @ [CHR 0x0A]]
   \<and> \<not> na (arb springsRated) \<and> \<not> na (springs springsRated) \<and> \<not> na (rideHeight springsRated)
   \<and> formatSprings_reddit unitsOfMeasure_spec springsRated =
       [''|**Springs**|**kgf/mm**|**lbs/in**|'', ''|:--|--:|--:|'',
        ''|Front|100.0|560.0|'', ''|Rear|100.0|560.0|'', CHR 0x0A # ''######'' @ [CHR 0x0A],
        ''|**Ride Height**|**cm**|**in**|'', ''|:--|--:|--:|'',
        ''|Front|||'', ''|Rear|||'', CHR 0x0A # ''######'' @ [CHR 0x0A]]
   \<and> \<not> na (arb springsNotApplicable) \<and> na (springs springsNotApplicable)
   \<and> formatSprings_reddit unitsOfMeasure_spec springsNotApplicable =
       [''|**Springs**|**kgf/mm**|**lbs/in**|'', ''|:--|--:|--:|'',
        ''|Not Applicable|||'', CHR 0x0A # ''######'' @ [CHR 0x0A],
        ''|**Ride Height**|**cm**|**in**|'', ''|:--|--:|--:|'',
        ''|Front|10.0|3.9|'', ''|Rear|11.5|4.5|'', CHR 0x0A # ''######'' @ [CHR 0x0A]]"
proof -
  have flags:
    "na (arb springsExample)"
    "\<not> na (arb springsRated)" "\<not> na (springs springsRated)" "\<not> na (rideHeight springsRated)"
    "\<not> na (arb springsNotApplicable)" "na (springs springsNotApplicable)"
    "\<not> na (rideHeight springsNotApplicable)"
    by (simp_all add: springsExample_def springsRated_def springsNotApplicable_def defaultTune_def)
  have fields:
    "units (springs springsRated) = SpringRate SpringRateUnit.kgf"
    "front (springs springsRated) = ''100''" "rear (springs springsRated) = ''100''"
    "units (rideHeight springsRated) = Length cm"
    "front (rideHeight springsRated) = ''''" "rear (rideHeight springsRated) = ''''"
    "units (springs springsNotApplicable) = SpringRate SpringRateUnit.kgf"
    "units (rideHeight springsNotApplicable) = Length cm"
    "front (rideHeight springsNotApplicable) = ''10.0''"
    "rear (rideHeight springsNotApplicable) = ''11.5''"
    by (simp_all add: springsRated_def springsNotApplicable_def defaultTune_def)
  have headers:
    "formatUnitHeaders unitsOfMeasure_spec (SpringRate SpringRateUnit.kgf) = [''kgf/mm'', ''lbs/in'']"
    "formatUnitHeaders unitsOfMeasure_spec (Length cm) = [''cm'', ''in'']"
    by code_simp+
  have cells:
    "formatUnit unitsOfMeasure_spec (Str '''') (SpringRate SpringRateUnit.kgf) (Some (Suc 0)) None = ['''', '''']"
    "formatUnit unitsOfMeasure_spec (Str ''100'') (SpringRate SpringRateUnit.kgf) (Some (Suc 0)) None
       = [''100.0'', ''560.0'']"
    "formatUnit unitsOfMeasure_spec (Str '''') (Length cm) (Some (Suc 0)) None = ['''', '''']"
    "formatUnit unitsOfMeasure_spec (Str ''10.0'') (Length cm) (Some (Suc 0)) None = [''10.0'', ''3.9'']"
    "formatUnit unitsOfMeasure_spec (Str ''11.5'') (Length cm) (Some (Suc 0)) None = [''11.5'', ''4.5'']"
    by code_simp+
  from springs_gated_by_arb [of springsExample unitsOfMeasure_spec] flags(1)
  have placeholder: "formatSprings_reddit unitsOfMeasure_spec springsExample =
       [''|**ARBs**||'', ''|:--|--:|'', ''|Not Applicable||'', CHR 0x0A # ''######'' @ [CHR 0x0A]]"
    by blast
  from springs_gated_by_arb [of springsRated unitsOfMeasure_spec] flags(2-4)
  have rated: "formatSprings_reddit unitsOfMeasure_spec springsRated =
       [''|**Springs**|**kgf/mm**|**lbs/in**|'', ''|:--|--:|--:|'',
        ''|Front|100.0|560.0|'', ''|Rear|100.0|560.0|'', CHR 0x0A # ''######'' @ [CHR 0x0A],
        ''|**Ride Height**|**cm**|**in**|'', ''|:--|--:|--:|'',
        ''|Front|||'', ''|Rear|||'', CHR 0x0A # ''######'' @ [CHR 0x0A]]"
    by (simp add: fields headers cells bold_reddit_def)
  from springs_gated_by_arb [of springsNotApplicable unitsOfMeasure_spec] flags(5-7)
  have notApplicable: "formatSprings_reddit unitsOfMeasure_spec springsNotApplicable =
       [''|**Springs**|**kgf/mm**|**lbs/in**|'', ''|:--|--:|--:|'',
        ''|Not Applicable|||'', CHR 0x0A # ''######'' @ [CHR 0x0A],
        ''|**Ride Height**|**cm**|**in**|'', ''|:--|--:|--:|'',
        ''|Front|10.0|3.9|'', ''|Rear|11.5|4.5|'', CHR 0x0A # ''######'' @ [CHR 0x0A]]"
    by (simp add: fields headers cells bold_reddit_def)
  from flags placeholder rated notApplicable show ?thesis by blast
qed

subsection \<open>The rear row of the chat renderer\<close>

text \<open>
  C10. In the chat renderer's \<open>formatFrontRearWithUnit\<close>, with \<open>na\<close> false and a rear value that
  is shown: when the front value is the text "Stock", the rear row is rendered from the
  number 0, not from the rear value (and the front row, which only \<open>showAll\<close> brings in, from
  0 as well); when the front value is not "Stock", the rear row is rendered from the rear
  value.
\<close>

theorem rear_row_tests_front:
  "(\<not> na v \<and> showValue (rear v) \<and> front v = ''Stock'' \<longrightarrow>
      formatFrontRearWithUnit_discord M header v precision showAll =
        formatTable_discord header
          ((if showAll
            then [''F '' # separate (formatUnit M (Num 0) (units v) (Some precision) (Some True)) ''/'']
            else [])
           @ [''R '' # separate (formatUnit M (Num 0) (units v) (Some precision) (Some True)) ''/''])
          align_right)
   \<and> (\<not> na v \<and> showValue (rear v) \<and> front v \<noteq> ''Stock'' \<longrightarrow>
      formatFrontRearWithUnit_discord M header v precision showAll =
        formatTable_discord header
          ((if showAll \<or> showValue (front v)
            then [''F '' # separate (formatUnit M (Str (front v)) (units v) (Some precision) (Some True)) ''/'']
            else [])
           @ [''R '' # separate (formatUnit M (Str (rear v)) (units v) (Some precision) (Some True)) ''/''])
          align_right)"
  by (auto simp: formatFrontRearWithUnit_discord_def Let_def showValue_simps)

theorem rear_row_tests_front_witness:
  "\<not> na stockTires \<and> showValue (rear stockTires) \<and> front stockTires = ''Stock''
   \<and> formatUnit unitsOfMeasure_spec (Num 0) (Pressure bar) (Some 1) (Some True) =
       [''0.0 bar'', ''0.0 psi'']
   \<and> formatUnit unitsOfMeasure_spec (Str ''2.0'') (Pressure bar) (Some 1) (Some True) =
       [''2.0 bar'', ''29.0 psi'']
   \<and> formatFrontRearWithUnit_discord unitsOfMeasure_spec '''' stockTires 1 False =
       [''R  0.0 bar / 0.0 psi'', '''']
   \<and> formatFrontRearWithUnit_discord unitsOfMeasure_spec ''''
        (stockTires \<lparr> front := ''1.9'' \<rparr>) 1 False =
       [''F  1.9 bar / 27.6 psi'', ''R  2.0 bar / 29.0 psi'', '''']"
proof -
  have h: "\<not> na stockTires \<and> showValue (rear stockTires) \<and> front stockTires = ''Stock''"
    by (simp add: stockTires_def showValue_simps)
  have h': "\<not> na (stockTires \<lparr> front := ''1.9'' \<rparr>)
            \<and> showValue (rear (stockTires \<lparr> front := ''1.9'' \<rparr>))
            \<and> front (stockTires \<lparr> front := ''1.9'' \<rparr>) \<noteq> ''Stock''"
    by (simp add: stockTires_def showValue_simps)
  have u: "formatUnit unitsOfMeasure_spec (Num 0) (Pressure bar) (Some 1) (Some True) =
       [''0.0 bar'', ''0.0 psi'']"
    "formatUnit unitsOfMeasure_spec (Str ''2.0'') (Pressure bar) (Some 1) (Some True) =
       [''2.0 bar'', ''29.0 psi'']"
    "formatUnit unitsOfMeasure_spec (Str ''1.9'') (Pressure bar) (Some 1) (Some True) =
       [''1.9 bar'', ''27.6 psi'']"
    by code_simp+
  have u': "formatUnit unitsOfMeasure_spec (Num 0) (Pressure bar) (Some (Suc 0)) (Some True) =
       [''0.0 bar'', ''0.0 psi'']"
    "formatUnit unitsOfMeasure_spec (Str ''2.0'') (Pressure bar) (Some (Suc 0)) (Some True) =
       [''2.0 bar'', ''29.0 psi'']"
    "formatUnit unitsOfMeasure_spec (Str ''1.9'') (Pressure bar) (Some (Suc 0)) (Some True) =
       [''1.9 bar'', ''27.6 psi'']"
    using u by simp_all
  have t0: "formatTable_discord '''' [[''R '', ''0.0 bar'', ''/'', ''0.0 psi'']] align_right =
       [''R  0.0 bar / 0.0 psi'', '''']"
    by code_simp
  have t1: "formatTable_discord ''''
       [[''F '', ''1.9 bar'', ''/'', ''27.6 psi''], [''R '', ''2.0 bar'', ''/'', ''29.0 psi'']]
       align_right =
       [''F  1.9 bar / 27.6 psi'', ''R  2.0 bar / 29.0 psi'', '''']"
    by code_simp
  have s: "units stockTires = Pressure bar" "rear stockTires = ''2.0''"
    by (simp_all add: stockTires_def)
  from rear_row_tests_front [of stockTires unitsOfMeasure_spec "''''" 1 False] h
  have r0: "formatFrontRearWithUnit_discord unitsOfMeasure_spec '''' stockTires 1 False =
       [''R  0.0 bar / 0.0 psi'', '''']"
    by (simp add: u' s t0)
  from rear_row_tests_front [of "stockTires \<lparr> front := ''1.9'' \<rparr>" unitsOfMeasure_spec "''''" 1 False] h'
  have r1: "formatFrontRearWithUnit_discord unitsOfMeasure_spec ''''
        (stockTires \<lparr> front := ''1.9'' \<rparr>) 1 False =
       [''F  1.9 bar / 27.6 psi'', ''R  2.0 bar / 29.0 psi'', '''']"
    by (simp add: u' s t1 showValue_simps)
  from h u(1,2) r0 r1 show ?thesis by simp
qed

end
